theory Spec2Isabelle
  imports Complex_Main "HOL-Library.AList"
begin

section \<open>NumPy values and arrays\<close>

text \<open>
  A cell of a float array is an IEEE value: not-a-number, an infinity or a finite number.
  Finite numbers are modelled as reals with exact arithmetic: rounding, overflow to an
  infinity and the sign of zero are not represented. The special values follow IEEE 754
  as NumPy applies it (a floating-point operation never raises; it yields \<open>NaN\<close> or an
  infinity and at most prints a warning).
\<close>

datatype npfloat = NaN | NegInf | PosInf | Fin real

text \<open>
  Exceptions raised by Python, NumPy and scikit-learn on the paths modelled here, and the
  error names of the specification's taxonomy. No function of the source raises one of the
  latter; they are here so that statements about them can be written.
\<close>

datatype library_error = IndexError | ValueError | NotFittedError

datatype error =
    LibraryError library_error
  | MissingBandError
  | ShapeMismatchError
  | InsufficientClassesError
  | NotTrainedError
  | EmptyLabelSetError

text \<open>A two-dimensional array: its shape and its cells in row-major order.\<close>

record 'a grid =
  nrows :: nat
  ncols :: nat
  cells :: "'a list"

text \<open>A three-dimensional array read from a raster file: one flat layer per band.\<close>

record image =
  height :: nat
  width :: nat
  bands :: "npfloat list list"

definition inf_of_sign :: "real \<Rightarrow> npfloat" where
  "inf_of_sign s = (if s = 0 then NaN else if 0 < s then PosInf else NegInf)"

fun sign_of :: "npfloat \<Rightarrow> real" where
  "sign_of NaN = 0"
| "sign_of NegInf = - 1"
| "sign_of PosInf = 1"
| "sign_of (Fin x) = sgn x"

fun np_neg :: "npfloat \<Rightarrow> npfloat" where
  "np_neg NaN = NaN"
| "np_neg NegInf = PosInf"
| "np_neg PosInf = NegInf"
| "np_neg (Fin x) = Fin (- x)"

fun np_add :: "npfloat \<Rightarrow> npfloat \<Rightarrow> npfloat" where
  "np_add NaN _ = NaN"
| "np_add _ NaN = NaN"
| "np_add (Fin x) (Fin y) = Fin (x + y)"
| "np_add PosInf NegInf = NaN"
| "np_add NegInf PosInf = NaN"
| "np_add PosInf _ = PosInf"
| "np_add _ PosInf = PosInf"
| "np_add NegInf _ = NegInf"
| "np_add _ NegInf = NegInf"

definition np_sub :: "npfloat \<Rightarrow> npfloat \<Rightarrow> npfloat" where
  "np_sub a b = np_add a (np_neg b)"

fun np_mul :: "npfloat \<Rightarrow> npfloat \<Rightarrow> npfloat" where
  "np_mul NaN _ = NaN"
| "np_mul _ NaN = NaN"
| "np_mul (Fin x) (Fin y) = Fin (x * y)"
| "np_mul a b = inf_of_sign (sign_of a * sign_of b)"

text \<open>
  Division by a zero gives an infinity of the numerator's sign, and \<open>0 / 0\<close> gives
  \<open>NaN\<close> (the zero is taken as positive).
\<close>

fun np_div :: "npfloat \<Rightarrow> npfloat \<Rightarrow> npfloat" where
  "np_div NaN _ = NaN"
| "np_div _ NaN = NaN"
| "np_div (Fin x) (Fin y) = (if y = 0 then inf_of_sign (sgn x) else Fin (x / y))"
| "np_div (Fin x) _ = Fin 0"
| "np_div a (Fin y) = inf_of_sign (sign_of a * (if y < 0 then - 1 else 1))"
| "np_div _ _ = NaN"

fun np_sqrt :: "npfloat \<Rightarrow> npfloat" where
  "np_sqrt NaN = NaN"
| "np_sqrt NegInf = NaN"
| "np_sqrt PosInf = PosInf"
| "np_sqrt (Fin x) = (if x < 0 then NaN else Fin (sqrt x))"

text \<open>Comparisons: every comparison with \<open>NaN\<close> is false.\<close>

fun np_less :: "npfloat \<Rightarrow> npfloat \<Rightarrow> bool" where
  "np_less NaN _ = False"
| "np_less _ NaN = False"
| "np_less (Fin x) (Fin y) = (x < y)"
| "np_less NegInf NegInf = False"
| "np_less NegInf _ = True"
| "np_less _ NegInf = False"
| "np_less PosInf _ = False"
| "np_less _ PosInf = True"

definition np_greater :: "npfloat \<Rightarrow> npfloat \<Rightarrow> bool" where
  "np_greater a b = np_less b a"

fun np_equal :: "npfloat \<Rightarrow> npfloat \<Rightarrow> bool" where
  "np_equal NaN _ = False"
| "np_equal _ NaN = False"
| "np_equal a b = (a = b)"

subsection \<open>Element-wise operations with broadcasting\<close>

text \<open>
  NumPy combines two arrays cell by cell. Two lengths of an axis are compatible when they
  are equal or one of them is 1 (that axis is then repeated); otherwise the operation
  raises \<open>ValueError\<close>.
\<close>

definition broadcast_dim :: "nat \<Rightarrow> nat \<Rightarrow> nat option" where
  "broadcast_dim m n =
     (if m = n then Some m else if m = 1 then Some n else if n = 1 then Some m else None)"

definition cell_at :: "'a grid \<Rightarrow> nat \<Rightarrow> nat \<Rightarrow> 'a" where
  "cell_at g i j =
     cells g ! ((if nrows g = 1 then 0 else i) * ncols g + (if ncols g = 1 then 0 else j))"

definition np_binop :: "('a \<Rightarrow> 'b \<Rightarrow> 'c) \<Rightarrow> 'a grid \<Rightarrow> 'b grid \<Rightarrow> error + 'c grid" where
  "np_binop f a b =
     (case broadcast_dim (nrows a) (nrows b) of
        None \<Rightarrow> Inl (LibraryError ValueError)
      | Some h \<Rightarrow>
          (case broadcast_dim (ncols a) (ncols b) of
             None \<Rightarrow> Inl (LibraryError ValueError)
           | Some w \<Rightarrow>
               Inr \<lparr>nrows = h, ncols = w,
                    cells = map (\<lambda>k. f (cell_at a (k div w) (k mod w))
                                        (cell_at b (k div w) (k mod w))) [0..<h * w]\<rparr>))"

text \<open>An operation of an array with a scalar, or a function applied to every cell.\<close>

definition np_map :: "('a \<Rightarrow> 'b) \<Rightarrow> 'a grid \<Rightarrow> 'b grid" where
  "np_map f g = \<lparr>nrows = nrows g, ncols = ncols g, cells = map f (cells g)\<rparr>"

text \<open>\<open>np.sum\<close> and \<open>np.nansum\<close> of a boolean array: the number of true cells.\<close>

definition np_sum :: "bool grid \<Rightarrow> nat" where
  "np_sum g = length (filter (\<lambda>c. c) (cells g))"

definition bind :: "error + 'a \<Rightarrow> ('a \<Rightarrow> error + 'b) \<Rightarrow> error + 'b" where
  "bind r f = (case r of Inl e \<Rightarrow> Inl e | Inr v \<Rightarrow> f v)"

text \<open>\<open>image[k]\<close>: band \<open>k\<close> of an image, \<open>IndexError\<close> when there is no such band.\<close>

definition band :: "image \<Rightarrow> nat \<Rightarrow> error + npfloat grid" where
  "band img k =
     (if k < length (bands img)
      then Inr \<lparr>nrows = height img, ncols = width img, cells = bands img ! k\<rparr>
      else Inl (LibraryError IndexError))"

section \<open>Spectral indices\<close>

subsection \<open>Strict masking (change\_detection.py)\<close>

text \<open>\<open>denominator[denominator == 0] = np.nan\<close>\<close>

definition mask_zero :: "npfloat grid \<Rightarrow> npfloat grid" where
  "mask_zero d = np_map (\<lambda>c. if np_equal c (Fin 0) then NaN else c) d"

definition cd_calculate_ndvi :: "image \<Rightarrow> error + npfloat grid" where
  "cd_calculate_ndvi img =
     bind (band img 3) (\<lambda>nir.
     bind (band img 2) (\<lambda>red.
     bind (np_binop np_add nir red) (\<lambda>denominator.
     bind (np_binop np_sub nir red) (\<lambda>numerator.
     np_binop np_div numerator (mask_zero denominator)))))"

definition cd_calculate_ndwi :: "image \<Rightarrow> error + npfloat grid" where
  "cd_calculate_ndwi img =
     bind (band img 1) (\<lambda>green.
     bind (band img 3) (\<lambda>nir.
     bind (np_binop np_add green nir) (\<lambda>denominator.
     bind (np_binop np_sub green nir) (\<lambda>numerator.
     np_binop np_div numerator (mask_zero denominator)))))"

text \<open>Band 0 (blue) stands in for the short-wave infrared band, as the source notes.\<close>

definition cd_calculate_ndbi :: "image \<Rightarrow> error + npfloat grid" where
  "cd_calculate_ndbi img =
     bind (band img 0) (\<lambda>swir.
     bind (band img 3) (\<lambda>nir.
     bind (np_binop np_add swir nir) (\<lambda>denominator.
     bind (np_binop np_sub swir nir) (\<lambda>numerator.
     np_binop np_div numerator (mask_zero denominator)))))"

subsection \<open>Epsilon-stabilized (feature\_extraction.py)\<close>

text \<open>
  These functions do not convert their arguments, so a layer may also be an integer array
  (a Sentinel-2 raster is unsigned 16-bit). A cell is therefore a float or an integer
  with its signedness and width. Integer arithmetic wraps around in its type; two integer
  types are combined in the type NumPy promotes them to (the wider one when both are
  signed or both unsigned, a signed type that holds both otherwise, and 64-bit floats
  for unsigned 64-bit with a signed type); an integer constant of the formulas keeps the
  array's type, a float constant and every division or square root give a float.
\<close>

datatype npvalue = FloatCell npfloat | IntCell bool nat int

definition wrap :: "bool \<Rightarrow> nat \<Rightarrow> int \<Rightarrow> int" where
  "wrap signed bits v =
     (if signed then (v + 2 ^ (bits - 1)) mod 2 ^ bits - 2 ^ (bits - 1) else v mod 2 ^ bits)"

definition result_type :: "bool \<times> nat \<Rightarrow> bool \<times> nat \<Rightarrow> (bool \<times> nat) option" where
  "result_type a b =
     (if fst a = fst b then Some (fst a, max (snd a) (snd b))
      else let u = (if fst a then snd b else snd a);
               s = (if fst a then snd a else snd b)
           in if u < s then Some (True, s)
              else if 2 * u \<le> 64 then Some (True, 2 * u)
              else None)"

fun as_float :: "npvalue \<Rightarrow> npfloat" where
  "as_float (FloatCell x) = x"
| "as_float (IntCell signed bits v) = Fin (real_of_int v)"

fun arith ::
  "(int \<Rightarrow> int \<Rightarrow> int) \<Rightarrow> (npfloat \<Rightarrow> npfloat \<Rightarrow> npfloat) \<Rightarrow> npvalue \<Rightarrow> npvalue \<Rightarrow> npvalue" where
  "arith fi ff (IntCell s1 w1 x) (IntCell s2 w2 y) =
     (case result_type (s1, w1) (s2, w2) of
        Some (s, w) \<Rightarrow> IntCell s w (wrap s w (fi x y))
      | None \<Rightarrow> FloatCell (ff (Fin (real_of_int x)) (Fin (real_of_int y))))"
| "arith fi ff a b = FloatCell (ff (as_float a) (as_float b))"

definition v_add :: "npvalue \<Rightarrow> npvalue \<Rightarrow> npvalue" where
  "v_add a b = arith (+) np_add a b"

definition v_sub :: "npvalue \<Rightarrow> npvalue \<Rightarrow> npvalue" where
  "v_sub a b = arith (-) np_sub a b"

text \<open>\<open>a / b\<close> and \<open>np.sqrt(a)\<close>\<close>

definition v_div :: "npvalue \<Rightarrow> npvalue \<Rightarrow> npvalue" where
  "v_div a b = FloatCell (np_div (as_float a) (as_float b))"

definition v_sqrt :: "npvalue \<Rightarrow> npvalue" where
  "v_sqrt a = FloatCell (np_sqrt (as_float a))"

text \<open>\<open>a ** 2\<close>, \<open>k * a\<close> and \<open>a + k\<close> for an integer constant \<open>k\<close>\<close>

fun v_square :: "npvalue \<Rightarrow> npvalue" where
  "v_square (IntCell s w x) = IntCell s w (wrap s w (x * x))"
| "v_square (FloatCell x) = FloatCell (np_mul x x)"

fun mul_int :: "int \<Rightarrow> npvalue \<Rightarrow> npvalue" where
  "mul_int k (IntCell s w x) = IntCell s w (wrap s w (k * x))"
| "mul_int k (FloatCell x) = FloatCell (np_mul (Fin (real_of_int k)) x)"

fun add_int :: "npvalue \<Rightarrow> int \<Rightarrow> npvalue" where
  "add_int (IntCell s w x) k = IntCell s w (wrap s w (x + k))"
| "add_int (FloatCell x) k = FloatCell (np_add x (Fin (real_of_int k)))"

text \<open>\<open>c * a\<close>, \<open>a + c\<close> and \<open>a / c\<close> for a float constant \<open>c\<close> (and \<open>a / 2\<close>)\<close>

definition mul_float :: "real \<Rightarrow> npvalue \<Rightarrow> npvalue" where
  "mul_float c a = FloatCell (np_mul (Fin c) (as_float a))"

definition add_float :: "npvalue \<Rightarrow> real \<Rightarrow> npvalue" where
  "add_float a c = FloatCell (np_add (as_float a) (Fin c))"

definition div_by :: "npvalue \<Rightarrow> real \<Rightarrow> npvalue" where
  "div_by a c = FloatCell (np_div (as_float a) (Fin c))"

definition epsilon :: real where
  "epsilon = 1 / 1000000"

text \<open>\<open>(nir - red) / (nir + red + 1e-6)\<close>\<close>

definition ndvi_denominator :: "npvalue \<Rightarrow> npvalue \<Rightarrow> npvalue" where
  "ndvi_denominator nir red = add_float (v_add nir red) epsilon"

definition ndvi_cell :: "npvalue \<Rightarrow> npvalue \<Rightarrow> npvalue" where
  "ndvi_cell nir red = v_div (v_sub nir red) (ndvi_denominator nir red)"

definition fe_calculate_ndvi :: "npvalue grid \<Rightarrow> npvalue grid \<Rightarrow> error + npvalue grid" where
  "fe_calculate_ndvi nir red = np_binop ndvi_cell nir red"

text \<open>\<open>(green - nir) / (green + nir + 1e-6)\<close>\<close>

definition ndwi_denominator :: "npvalue \<Rightarrow> npvalue \<Rightarrow> npvalue" where
  "ndwi_denominator green nir = add_float (v_add green nir) epsilon"

definition ndwi_cell :: "npvalue \<Rightarrow> npvalue \<Rightarrow> npvalue" where
  "ndwi_cell green nir = v_div (v_sub green nir) (ndwi_denominator green nir)"

definition fe_calculate_ndwi :: "npvalue grid \<Rightarrow> npvalue grid \<Rightarrow> error + npvalue grid" where
  "fe_calculate_ndwi green nir = np_binop ndwi_cell green nir"

text \<open>\<open>(swir - nir) / (swir + nir + 1e-6)\<close>\<close>

definition ndbi_denominator :: "npvalue \<Rightarrow> npvalue \<Rightarrow> npvalue" where
  "ndbi_denominator swir nir = add_float (v_add swir nir) epsilon"

definition ndbi_cell :: "npvalue \<Rightarrow> npvalue \<Rightarrow> npvalue" where
  "ndbi_cell swir nir = v_div (v_sub swir nir) (ndbi_denominator swir nir)"

definition fe_calculate_ndbi :: "npvalue grid \<Rightarrow> npvalue grid \<Rightarrow> error + npvalue grid" where
  "fe_calculate_ndbi swir nir = np_binop ndbi_cell swir nir"

text \<open>
  \<open>((nir - red) * (1 + L)) / (nir + red + L + 1e-6)\<close>. The soil factor \<open>L\<close> is a Python
  float; its default is 0.5.
\<close>

definition savi_denominator :: "real \<Rightarrow> npvalue \<Rightarrow> npvalue \<Rightarrow> npvalue" where
  "savi_denominator L nir red = add_float (add_float (v_add nir red) L) epsilon"

definition savi_cell :: "real \<Rightarrow> npvalue \<Rightarrow> npvalue \<Rightarrow> npvalue" where
  "savi_cell L nir red =
     v_div (mul_float (1 + L) (v_sub nir red)) (savi_denominator L nir red)"

definition calculate_savi :: "npvalue grid \<Rightarrow> npvalue grid \<Rightarrow> real \<Rightarrow> error + npvalue grid" where
  "calculate_savi nir red L = np_binop (savi_cell L) nir red"

definition default_L :: real where
  "default_L = 1 / 2"

text \<open>
  \<open>(2 * nir + 1 - np.sqrt((2 * nir + 1)**2 - 8 * (nir - red))) / 2\<close>; the argument of
  the square root is named so that statements can refer to it.
\<close>

definition msavi_radicand :: "npvalue \<Rightarrow> npvalue \<Rightarrow> npvalue" where
  "msavi_radicand nir red =
     v_sub (v_square (add_int (mul_int 2 nir) 1)) (mul_int 8 (v_sub nir red))"

definition msavi_cell :: "npvalue \<Rightarrow> npvalue \<Rightarrow> npvalue" where
  "msavi_cell nir red =
     div_by (v_sub (add_int (mul_int 2 nir) 1) (v_sqrt (msavi_radicand nir red))) 2"

definition calculate_msavi :: "npvalue grid \<Rightarrow> npvalue grid \<Rightarrow> error + npvalue grid" where
  "calculate_msavi nir red = np_binop msavi_cell nir red"

text \<open>\<open>2.5 * (nir - red) / (nir + 6 * red - 7.5 * blue + 1 + 1e-6)\<close>\<close>

definition evi_denominator :: "npvalue \<Rightarrow> npvalue \<Rightarrow> npvalue \<Rightarrow> npvalue" where
  "evi_denominator nir red blue =
     add_float (add_int (v_sub (v_add nir (mul_int 6 red)) (mul_float (15 / 2) blue)) 1)
               epsilon"

definition evi_cell :: "npvalue \<Rightarrow> npvalue \<Rightarrow> npvalue \<Rightarrow> npvalue" where
  "evi_cell nir red blue =
     v_div (mul_float (5 / 2) (v_sub nir red)) (evi_denominator nir red blue)"

definition calculate_evi ::
  "npvalue grid \<Rightarrow> npvalue grid \<Rightarrow> npvalue grid \<Rightarrow> error + npvalue grid" where
  "calculate_evi nir red blue =
     bind (np_binop Pair nir red) (\<lambda>nr.
     np_binop (\<lambda>p b. evi_cell (fst p) (snd p) b) nr blue)"

text \<open>\<open>((swir + red) - (nir + blue)) / ((swir + red) + (nir + blue) + 1e-6)\<close>\<close>

definition bsi_denominator :: "npvalue \<Rightarrow> npvalue \<Rightarrow> npvalue \<Rightarrow> npvalue \<Rightarrow> npvalue" where
  "bsi_denominator swir nir red blue =
     add_float (v_add (v_add swir red) (v_add nir blue)) epsilon"

definition bsi_cell :: "npvalue \<Rightarrow> npvalue \<Rightarrow> npvalue \<Rightarrow> npvalue \<Rightarrow> npvalue" where
  "bsi_cell swir nir red blue =
     v_div (v_sub (v_add swir red) (v_add nir blue)) (bsi_denominator swir nir red blue)"

definition calculate_bsi ::
  "npvalue grid \<Rightarrow> npvalue grid \<Rightarrow> npvalue grid \<Rightarrow> npvalue grid \<Rightarrow> error + npvalue grid" where
  "calculate_bsi swir nir red blue =
     bind (np_binop Pair swir red) (\<lambda>sr.
     bind (np_binop Pair nir blue) (\<lambda>nb.
     np_binop (\<lambda>p q. bsi_cell (fst p) (fst q) (snd p) (snd q)) sr nb))"

section \<open>Change detection\<close>

subsection \<open>Continuous mode (change\_detection.py)\<close>

record index_change =
  at_2018 :: "npfloat grid"
  at_2023 :: "npfloat grid"
  difference :: "npfloat grid"

record changes =
  ndvi :: index_change
  ndwi :: index_change
  ndbi :: index_change

definition detect_changes :: "image \<Rightarrow> image \<Rightarrow> error + changes" where
  "detect_changes image_2018 image_2023 =
     bind (cd_calculate_ndvi image_2018) (\<lambda>ndvi_2018.
     bind (cd_calculate_ndvi image_2023) (\<lambda>ndvi_2023.
     bind (np_binop np_sub ndvi_2023 ndvi_2018) (\<lambda>ndvi_change.
     bind (cd_calculate_ndwi image_2018) (\<lambda>ndwi_2018.
     bind (cd_calculate_ndwi image_2023) (\<lambda>ndwi_2023.
     bind (np_binop np_sub ndwi_2023 ndwi_2018) (\<lambda>ndwi_change.
     bind (cd_calculate_ndbi image_2018) (\<lambda>ndbi_2018.
     bind (cd_calculate_ndbi image_2023) (\<lambda>ndbi_2023.
     bind (np_binop np_sub ndbi_2023 ndbi_2018) (\<lambda>ndbi_change.
     Inr \<lparr>ndvi = \<lparr>at_2018 = ndvi_2018, at_2023 = ndvi_2023, difference = ndvi_change\<rparr>,
          ndwi = \<lparr>at_2018 = ndwi_2018, at_2023 = ndwi_2023, difference = ndwi_change\<rparr>,
          ndbi = \<lparr>at_2018 = ndbi_2018, at_2023 = ndbi_2023, difference = ndbi_change\<rparr>\<rparr>
     )))))))))"

text \<open>
  The pixel sizes and the threshold are Python numbers. The result is the pair
  \<open>(pos_area, neg_area)\<close>.
\<close>

definition calculate_area_stats :: "npfloat grid \<Rightarrow> real \<Rightarrow> real \<Rightarrow> real \<Rightarrow> real \<times> real" where
  "calculate_area_stats change pixel_size_x pixel_size_y threshold =
     (let pos_mask = np_map (\<lambda>c. np_greater c (Fin threshold)) change;
          neg_mask = np_map (\<lambda>c. np_less c (Fin (- threshold))) change;
          pixel_area_km2 = (pixel_size_x * pixel_size_y) / 1000000;
          pos_area = real (np_sum pos_mask) * pixel_area_km2;
          neg_area = real (np_sum neg_mask) * pixel_area_km2
      in (pos_area, neg_area))"

definition default_threshold :: real where
  "default_threshold = 1 / 10"

subsection \<open>Categorical mode (temporal\_analysis.py)\<close>

text \<open>
  The two loops over \<open>i\<close> and \<open>j\<close> in \<open>range(1, n_classes + 1)\<close>, as one pass over the
  pairs in the order the loops visit them. Each step stores one count in the matrix; an
  exception of the element-wise \<open>&\<close> ends the loop.
\<close>

fun fill_change_matrix ::
  "int grid \<Rightarrow> int grid \<Rightarrow> (nat \<times> nat) list \<Rightarrow> nat list list \<Rightarrow> error + nat list list" where
  "fill_change_matrix class_2017 class_2023 [] change_matrix = Inr change_matrix"
| "fill_change_matrix class_2017 class_2023 ((i, j) # rest) change_matrix =
     (case np_binop (\<and>) (np_map (\<lambda>c. c = int i) class_2017)
                         (np_map (\<lambda>c. c = int j) class_2023) of
        Inl e \<Rightarrow> Inl e
      | Inr both \<Rightarrow>
          fill_change_matrix class_2017 class_2023 rest
            (change_matrix[i - 1 := (change_matrix ! (i - 1))[j - 1 := np_sum both]]))"

definition n_classes :: nat where
  "n_classes = 4"

definition calculate_changes :: "int grid \<Rightarrow> int grid \<Rightarrow> error + nat list list" where
  "calculate_changes class_2017 class_2023 =
     fill_change_matrix class_2017 class_2023
       (concat (map (\<lambda>i. map (\<lambda>j. (i, j)) [1..<n_classes + 1]) [1..<n_classes + 1]))
       (replicate n_classes (replicate n_classes 0))"

section \<open>Supervised classification (classification.py)\<close>

text \<open>
  scikit-learn is outside the repository. A fitted random forest is modelled by what the
  code reads from it: the labels it was fitted on (\<open>classes_\<close>), its importance
  vector (\<open>feature_importances_\<close>) and its decision for one row of features, which may
  raise. Fitting and the train/test split are parameters of the model; nothing is assumed
  about them except where a theorem says so.
\<close>

type_synonym row = "npfloat list"

record forest =
  classes :: "int list"
  feature_importances :: "real list"
  predict_row :: "row \<Rightarrow> library_error + int"

record sklearn =
  fit :: "row list \<Rightarrow> int list \<Rightarrow> library_error + forest"
  train_test_split ::
    "row list \<Rightarrow> int list \<Rightarrow> library_error + (row list \<times> row list \<times> int list \<times> int list)"

text \<open>
  An exception of a library call propagates unchanged through the calling code.
\<close>

definition lift :: "library_error + 'a \<Rightarrow> error + 'a" where
  "lift r = (case r of Inl e \<Rightarrow> Inl (LibraryError e) | Inr v \<Rightarrow> Inr v)"

text \<open>
  \<open>model.predict(X)\<close> on a fitted forest: one decision per row; an array without
  rows is rejected with \<open>ValueError\<close>.
\<close>

fun predict_rows :: "forest \<Rightarrow> row list \<Rightarrow> library_error + int list" where
  "predict_rows m [] = Inr []"
| "predict_rows m (r # rs) =
     (case predict_row m r of
        Inl e \<Rightarrow> Inl e
      | Inr c \<Rightarrow> (case predict_rows m rs of Inl e \<Rightarrow> Inl e | Inr cs \<Rightarrow> Inr (c # cs)))"

definition forest_predict :: "forest \<Rightarrow> row list \<Rightarrow> library_error + int list" where
  "forest_predict m X = (if X = [] then Inl ValueError else predict_rows m X)"

text \<open>
  \<open>xs[mask]\<close> with a boolean array: \<open>IndexError\<close> when the lengths differ, otherwise
  the entries at the true positions.
\<close>

definition boolean_index :: "'a list \<Rightarrow> bool list \<Rightarrow> error + 'a list" where
  "boolean_index xs bmask =
     (if length bmask \<noteq> length xs then Inl (LibraryError IndexError)
      else Inr (map fst (filter snd (zip xs bmask))))"

text \<open>
  \<open>dict(pairs)\<close>: a later pair with a key already present replaces its value in
  place; the pairs keep their order of insertion.
\<close>

definition py_dict :: "('k \<times> 'v) list \<Rightarrow> ('k \<times> 'v) list" where
  "py_dict kvs = fold (\<lambda>kv d. AList.update (fst kv) (snd kv) d) kvs []"

text \<open>
  \<open>np.moveaxis(features, 0, -1).reshape(-1, bands)\<close>: one row per pixel, holding the
  pixel's value in every band.
\<close>

definition pixel_rows :: "image \<Rightarrow> row list" where
  "pixel_rows img = map (\<lambda>k. map (\<lambda>layer. layer ! k) (bands img)) [0..<height img * width img]"

text \<open>
  The state of a \<open>LandCoverClassifier\<close>. \<open>model = None\<close> stands for the forest that
  has not been fitted, on which scikit-learn raises \<open>NotFittedError\<close>. The number of
  trees and the random seed are handed to the library and play no part here.
\<close>

record classifier =
  model :: "forest option"
  feature_names :: "string list"
  class_names :: "string list"

definition init :: classifier where
  "init = \<lparr>model = None,
           feature_names = [''NDVI'', ''NDWI'', ''NDBI''],
           class_names = [''Water'', ''Vegetation'', ''Built-up'', ''Barren'']\<rparr>"

text \<open>
  The arrays are those read from the two raster files.
\<close>

definition prepare_training_data ::
  "sklearn \<Rightarrow> image \<Rightarrow> int grid \<Rightarrow> error + (row list \<times> row list \<times> int list \<times> int list)" where
  "prepare_training_data sk features labels =
     (let X = pixel_rows features;
          y = cells labels;
          bmask = map (\<lambda>c. c \<noteq> 0) y
      in bind (boolean_index X bmask) (\<lambda>X.
         bind (boolean_index y bmask) (\<lambda>y.
         lift (train_test_split sk X y))))"

definition train :: "sklearn \<Rightarrow> classifier \<Rightarrow> row list \<Rightarrow> int list \<Rightarrow> error + classifier" where
  "train sk self X_train y_train =
     bind (lift (fit sk X_train y_train)) (\<lambda>fitted. Inr (self\<lparr>model := Some fitted\<rparr>))"

text \<open>
  The result is the array the method returns; the copy written to the output file is
  not modelled.
\<close>

definition predict :: "classifier \<Rightarrow> image \<Rightarrow> error + int grid" where
  "predict self features =
     (let X = pixel_rows features
      in case model self of
           None \<Rightarrow> Inl (LibraryError NotFittedError)
         | Some m \<Rightarrow>
             bind (lift (forest_predict m X)) (\<lambda>predictions.
             Inr \<lparr>nrows = height features, ncols = width features, cells = predictions\<rparr>))"

definition get_feature_importance :: "classifier \<Rightarrow> error + (string \<times> real) list" where
  "get_feature_importance self =
     (case model self of
        None \<Rightarrow> Inl (LibraryError NotFittedError)
      | Some m \<Rightarrow> Inr (py_dict (zip (feature_names self) (feature_importances m))))"

section \<open>Validation (validation.py)\<close>

text \<open>
  The two metric functions of scikit-learn are parameters. The result of
  \<open>validate_classification\<close> is the pair of confusion matrix and report that the
  function goes on to plot and print.
\<close>

record ('c, 'r) sklearn_metrics =
  confusion_matrix :: "int list \<Rightarrow> int list \<Rightarrow> library_error + 'c"
  classification_report :: "int list \<Rightarrow> int list \<Rightarrow> string list \<Rightarrow> library_error + 'r"

definition calculate_metrics ::
  "('c, 'r) sklearn_metrics \<Rightarrow> int list \<Rightarrow> int list \<Rightarrow> string list \<Rightarrow> error + ('c \<times> 'r)" where
  "calculate_metrics lib y_true y_pred names =
     bind (lift (confusion_matrix lib y_true y_pred)) (\<lambda>cm.
     bind (lift (classification_report lib y_true y_pred names)) (\<lambda>report.
     Inr (cm, report)))"

definition validate_classification ::
  "('c, 'r) sklearn_metrics \<Rightarrow> int grid \<Rightarrow> int grid \<Rightarrow> error + ('c \<times> 'r)" where
  "validate_classification lib prediction ground_truth =
     (let y_pred = cells prediction;
          y_true = cells ground_truth;
          bmask = map (\<lambda>c. c \<noteq> 0) y_true
      in bind (boolean_index y_pred bmask) (\<lambda>y_pred.
         bind (boolean_index y_true bmask) (\<lambda>y_true.
         calculate_metrics lib y_true y_pred
           [''Water'', ''Vegetation'', ''Built-up'', ''Barren''])))"

section \<open>Notions used in the statements\<close>

text \<open>
  An array holds as many cells as its shape says. A Label Grid has cells in 0..4
  (0 is background, 1..4 are the classes). \<open>count_pairs\<close> counts the positions of two
  grids whose pair of cells satisfies a predicate; \<open>matrix_sum\<close> and \<open>matrix_trace\<close>
  are \<open>np.sum(m)\<close> and \<open>np.sum(np.diag(m))\<close> as the summary of temporal\_analysis.py
  computes them. Two shapes are compatible when NumPy can broadcast them. A cell is
  integral when its value is a whole number, and at least \<open>c\<close> when it is a number
  (or plus infinity) not below \<open>c\<close>.
\<close>

definition well_formed :: "'a grid \<Rightarrow> bool" where
  "well_formed g = (length (cells g) = nrows g * ncols g)"

definition matrix_sum :: "nat list list \<Rightarrow> nat" where
  "matrix_sum m = sum_list (map sum_list m)"

definition matrix_trace :: "nat list list \<Rightarrow> nat" where
  "matrix_trace m = sum_list (map (\<lambda>i. m ! i ! i) [0..<length m])"

definition count_pairs :: "('a \<times> 'b \<Rightarrow> bool) \<Rightarrow> 'a grid \<Rightarrow> 'b grid \<Rightarrow> nat" where
  "count_pairs P a b = length (filter P (zip (cells a) (cells b)))"

definition label_range :: "int \<Rightarrow> bool" where
  "label_range c = (0 \<le> c \<and> c \<le> 4)"

definition integral :: "npvalue \<Rightarrow> bool" where
  "integral v = (\<exists>z. as_float v = Fin (real_of_int z))"

definition at_least :: "real \<Rightarrow> npvalue \<Rightarrow> bool" where
  "at_least c v = (case as_float v of Fin x \<Rightarrow> c \<le> x | PosInf \<Rightarrow> True | _ \<Rightarrow> False)"

definition shape :: "'a grid \<Rightarrow> nat \<times> nat" where
  "shape g = (nrows g, ncols g)"

definition image_shape :: "image \<Rightarrow> nat \<times> nat" where
  "image_shape img = (height img, width img)"

definition compatible :: "nat \<times> nat \<Rightarrow> nat \<times> nat \<Rightarrow> bool" where
  "compatible s t =
     (broadcast_dim (fst s) (fst t) \<noteq> None \<and> broadcast_dim (snd s) (snd t) \<noteq> None)"

text \<open>
  What scikit-learn documents about its results: a fitted forest predicts only labels
  it was fitted on, these are the labels of the training rows, and a split returns
  labels taken from the ones it was given.
\<close>

definition forest_contract :: "forest \<Rightarrow> bool" where
  "forest_contract m = (\<forall>r c. predict_row m r = Inr c \<longrightarrow> c \<in> set (classes m))"

definition fit_contract :: "(row list \<Rightarrow> int list \<Rightarrow> library_error + forest) \<Rightarrow> bool" where
  "fit_contract f =
     (\<forall>X y m. f X y = Inr m \<longrightarrow> set (classes m) = set y \<and> forest_contract m)"

definition split_contract ::
  "(row list \<Rightarrow> int list \<Rightarrow> library_error + (row list \<times> row list \<times> int list \<times> int list))
     \<Rightarrow> bool" where
  "split_contract s =
     (\<forall>X y X_train X_test y_train y_test.
        s X y = Inr (X_train, X_test, y_train, y_test) \<longrightarrow>
        set y_train \<subseteq> set y \<and> set y_test \<subseteq> set y)"

subsection \<open>Library instances for concrete runs\<close>

text \<open>
  A forest fitted on rows of a single class is a constant: every tree is one leaf and no
  feature has any importance. \<open>constant_forest_fit\<close> returns that forest for the first
  label; \<open>ordered_split\<close> keeps the order of the rows and puts the last fifth, rounded
  up, in the test part. The metric functions of \<open>echo_metrics\<close> return what they are
  given, which shows the arrays the validator hands to the library.
\<close>

definition always :: "int \<Rightarrow> row \<Rightarrow> library_error + int" where
  "always c r = Inr c"

definition constant_forest_fit :: "row list \<Rightarrow> int list \<Rightarrow> library_error + forest" where
  "constant_forest_fit X y =
     (if X = [] \<or> length X \<noteq> length y then Inl ValueError
      else Inr \<lparr>classes = remdups y,
                feature_importances = replicate (length (hd X)) 0,
                predict_row = always (hd y)\<rparr>)"

definition ordered_split ::
  "row list \<Rightarrow> int list \<Rightarrow> library_error + (row list \<times> row list \<times> int list \<times> int list)" where
  "ordered_split X y =
     (let n_test = (length X + 4) div 5; n_train = length X - n_test
      in if n_train = 0 \<or> length X \<noteq> length y then Inl ValueError
         else Inr (take n_train X, drop n_train X, take n_train y, drop n_train y))"

definition example_sklearn :: sklearn where
  "example_sklearn = \<lparr>fit = constant_forest_fit, train_test_split = ordered_split\<rparr>"

definition echo_confusion_matrix :: "int list \<Rightarrow> int list \<Rightarrow> library_error + (int \<times> int) list" where
  "echo_confusion_matrix y_true y_pred = Inr (zip y_true y_pred)"

definition echo_classification_report ::
  "int list \<Rightarrow> int list \<Rightarrow> string list \<Rightarrow> library_error + string list" where
  "echo_classification_report y_true y_pred names = Inr names"

definition echo_metrics :: "((int \<times> int) list, string list) sklearn_metrics" where
  "echo_metrics = \<lparr>confusion_matrix = echo_confusion_matrix,
                   classification_report = echo_classification_report\<rparr>"

section \<open>Theorems\<close>

subsection \<open>Arrays\<close>

lemma upt_2: "[0..<2] = [0, Suc 0]"
  by (simp add: upt_rec)

lemma upt_3: "[0..<3] = [0, 1, 2]"
  by (simp add: upt_rec)

lemma upt_4: "[0..<4] = [0, 1, 2, 3]"
  by (simp add: upt_rec)

lemma broadcast_dim_same [simp]: "broadcast_dim n n = Some n"
  by (simp add: broadcast_dim_def)

lemma cell_at_in_range:
  assumes "k < nrows g * ncols g"
  shows "cell_at g (k div ncols g) (k mod ncols g) = cells g ! k"
proof -
  have r: "nrows g = 1 \<Longrightarrow> k div ncols g = 0 \<and> k mod ncols g = k"
    using assms by simp
  have c: "ncols g = 1 \<Longrightarrow> k mod ncols g = 0 \<and> k div ncols g = k"
    by simp
  have e: "k div ncols g * ncols g + k mod ncols g = k"
    by simp
  show ?thesis
  proof (cases "nrows g = 1")
    case True
    with r c show ?thesis by (cases "ncols g = 1") (simp_all add: cell_at_def)
  next
    case False
    with c e show ?thesis by (cases "ncols g = 1") (simp_all add: cell_at_def)
  qed
qed

lemma np_binop_same_shape:
  assumes "nrows a = nrows b" and "ncols a = ncols b"
  shows "np_binop f a b =
     Inr \<lparr>nrows = nrows a, ncols = ncols a,
          cells = map (\<lambda>k. f (cells a ! k) (cells b ! k)) [0..<nrows a * ncols a]\<rparr>"
proof -
  have "map (\<lambda>k. f (cell_at a (k div ncols a) (k mod ncols a))
                    (cell_at b (k div ncols a) (k mod ncols a))) [0..<nrows a * ncols a]
      = map (\<lambda>k. f (cells a ! k) (cells b ! k)) [0..<nrows a * ncols a]"
    using assms cell_at_in_range [of _ a] cell_at_in_range [of _ b]
    by (intro map_cong) simp_all
  then show ?thesis
    using assms by (simp add: np_binop_def)
qed

lemma np_binop_error: "np_binop f a b = Inl e \<Longrightarrow> e = LibraryError ValueError"
  by (auto simp: np_binop_def split: option.splits)

lemma np_binop_incompatible:
  "\<not> compatible (shape a) (shape b) \<Longrightarrow> np_binop f a b = Inl (LibraryError ValueError)"
  by (auto simp: np_binop_def compatible_def shape_def split: option.splits)

lemma np_binop_compatible:
  "compatible (shape a) (shape b) \<Longrightarrow> \<exists>g. np_binop f a b = Inr g"
  by (auto simp: np_binop_def compatible_def shape_def split: option.splits)

lemma shape_np_map [simp]: "shape (np_map f g) = shape g"
  by (simp add: shape_def np_map_def)

lemma np_add_NaN_right [simp]: "np_add a NaN = NaN"
  by (cases a) simp_all

lemma np_sub_NaN_right [simp]: "np_sub a NaN = NaN"
  by (simp add: np_sub_def)

lemma np_sqrt_negative: "np_less a (Fin 0) \<Longrightarrow> np_sqrt a = NaN"
  by (cases a) simp_all

lemma np_add_eq_zero: "(np_add x (Fin c) = Fin 0) = (x = Fin (- c))"
  by (cases x) auto

lemma add_float_eq_zero: "(add_float a c = FloatCell (Fin 0)) = (as_float a = Fin (- c))"
  by (simp add: add_float_def np_add_eq_zero)

lemma arith_FloatCell_right [simp]:
  "arith fi ff a (FloatCell y) = FloatCell (ff (as_float a) y)"
  by (cases a) simp_all

lemma integral_IntCell [simp]: "integral (IntCell s w x)"
  by (auto simp: integral_def)

lemma integral_arith:
  assumes "integral a" and "integral b"
    and "\<And>x y. ff (Fin (real_of_int x)) (Fin (real_of_int y)) = Fin (real_of_int (fi x y))"
  shows "integral (arith fi ff a b)"
proof -
  from assms(1,2) obtain x y where x: "as_float a = Fin (real_of_int x)"
    and y: "as_float b = Fin (real_of_int y)"
    by (auto simp: integral_def)
  show ?thesis
  proof (cases a)
    case (FloatCell u)
    with x y assms(3) show ?thesis by (auto simp: integral_def)
  next
    case a: (IntCell s1 w1 x1)
    show ?thesis
    proof (cases b)
      case (FloatCell v)
      with x y assms(3) show ?thesis by (auto simp: integral_def)
    next
      case (IntCell s2 w2 y2)
      with a assms(3) show ?thesis
        by (auto simp: integral_def split: option.splits)
    qed
  qed
qed

lemma integral_v_add: "integral a \<Longrightarrow> integral b \<Longrightarrow> integral (v_add a b)"
  unfolding v_add_def by (rule integral_arith) simp_all

lemma integral_v_sub: "integral a \<Longrightarrow> integral b \<Longrightarrow> integral (v_sub a b)"
  unfolding v_sub_def by (rule integral_arith) (simp_all add: np_sub_def)

lemma integral_mul_int: "integral a \<Longrightarrow> integral (mul_int k a)"
  by (cases a) (auto simp: integral_def simp flip: of_int_mult)

lemma integral_add_int: "integral a \<Longrightarrow> integral (add_int a k)"
  by (cases a) (auto simp: integral_def simp flip: of_int_add)

lemma np_greater_Fin: "np_greater c (Fin t) = (c = PosInf \<or> (\<exists>x. c = Fin x \<and> t < x))"
  by (cases c) (simp_all add: np_greater_def)

lemma np_less_Fin: "np_less c (Fin t) = (c = NegInf \<or> (\<exists>x. c = Fin x \<and> x < t))"
  by (cases c) simp_all

lemma np_sum_np_map: "np_sum (np_map P g) = length (filter P (cells g))"
  by (simp add: np_sum_def np_map_def filter_map comp_def)

lemma filter_drop_NaN:
  "\<not> P NaN \<Longrightarrow> filter (\<lambda>c. c \<noteq> NaN \<and> P c) xs = filter P xs"
  by (induction xs) auto

lemma map_index_zip:
  "length xs = n \<Longrightarrow> length ys = n \<Longrightarrow>
   map (\<lambda>k. f (xs ! k) (ys ! k)) [0..<n] = map (\<lambda>p. f (fst p) (snd p)) (zip xs ys)"
  by (rule nth_equalityI) simp_all

lemma boolean_index_same_length:
  "length xs = length ys \<Longrightarrow>
   boolean_index xs (map P ys) = Inr (map fst (filter (\<lambda>p. P (snd p)) (zip xs ys)))"
proof -
  assume l: "length xs = length ys"
  then have "map fst (filter snd (zip xs (map P ys))) = map fst (filter (\<lambda>p. P (snd p)) (zip xs ys))"
    by (induction xs ys rule: list_induct2) simp_all
  with l show ?thesis by (simp add: boolean_index_def)
qed

lemma boolean_index_self: "boolean_index ys (map P ys) = Inr (filter P ys)"
proof -
  have "map fst (filter snd (zip ys (map P ys))) = filter P ys"
    by (induction ys) simp_all
  then show ?thesis by (simp add: boolean_index_def)
qed

lemma boolean_index_mismatch:
  "length xs \<noteq> length ys \<Longrightarrow> boolean_index xs (map P ys) = Inl (LibraryError IndexError)"
  by (auto simp: boolean_index_def)

subsection \<open>C1: the NDVI scenario\<close>

text \<open>
  C1. On the grid with near-infrared layer [10, 0] and red layer [2, 0] the strict NDVI
  is [2/3, NaN]: the second cell, whose denominator is exactly zero, is the no-value
  marker (not zero) and nothing is raised. The epsilon-stabilized NDVI of the same layers,
  given as floats or as unsigned 16-bit integers, has a first cell within 1e-6 of 2/3 and
  a second cell equal to 0.
\<close>

theorem C1_ndvi_scenario:
  "cd_calculate_ndvi \<lparr>height = 1, width = 2,
       bands = [b0, b1, [Fin 2, Fin 0], [Fin 10, Fin 0]]\<rparr>
     = Inr \<lparr>nrows = 1, ncols = 2, cells = [Fin (2 / 3), NaN]\<rparr>
   \<and> NaN \<noteq> Fin 0
   \<and> fe_calculate_ndvi
        \<lparr>nrows = 1, ncols = 2, cells = [FloatCell (Fin 10), FloatCell (Fin 0)]\<rparr>
        \<lparr>nrows = 1, ncols = 2, cells = [FloatCell (Fin 2), FloatCell (Fin 0)]\<rparr>
     = Inr \<lparr>nrows = 1, ncols = 2,
            cells = [FloatCell (Fin (8 / (12 + epsilon))), FloatCell (Fin 0)]\<rparr>
   \<and> fe_calculate_ndvi
        \<lparr>nrows = 1, ncols = 2, cells = [IntCell False 16 10, IntCell False 16 0]\<rparr>
        \<lparr>nrows = 1, ncols = 2, cells = [IntCell False 16 2, IntCell False 16 0]\<rparr>
     = Inr \<lparr>nrows = 1, ncols = 2,
            cells = [FloatCell (Fin (8 / (12 + epsilon))), FloatCell (Fin 0)]\<rparr>
   \<and> \<bar>8 / (12 + epsilon) - 2 / 3\<bar> < epsilon"
  by (simp add: cd_calculate_ndvi_def band_def bind_def
      np_binop_def broadcast_dim_def cell_at_def mask_zero_def np_map_def np_sub_def
      fe_calculate_ndvi_def ndvi_cell_def ndvi_denominator_def epsilon_def upt_2
      v_div_def v_sub_def v_add_def add_float_def result_type_def wrap_def)

subsection \<open>C2: the change matrix\<close>

lemma np_sum_both:
  assumes "well_formed a" and "well_formed b"
    and "nrows a = nrows b" and "ncols a = ncols b"
  shows "np_binop (\<and>) (np_map P a) (np_map Q b) =
           Inr \<lparr>nrows = nrows a, ncols = ncols a,
                cells = map (\<lambda>p. P (fst p) \<and> Q (snd p)) (zip (cells a) (cells b))\<rparr>"
proof -
  let ?n = "nrows a * ncols a"
  have la: "length (cells a) = ?n" and lb: "length (cells b) = ?n"
    using assms by (simp_all add: well_formed_def)
  have "map (\<lambda>k. (map P (cells a) ! k) \<and> (map Q (cells b) ! k)) [0..<?n]
      = map (\<lambda>k. P (cells a ! k) \<and> Q (cells b ! k)) [0..<?n]"
    using la lb by (intro map_cong) simp_all
  also have "\<dots> = map (\<lambda>p. P (fst p) \<and> Q (snd p)) (zip (cells a) (cells b))"
    using la lb by (rule map_index_zip)
  finally show ?thesis
    using assms by (simp add: np_binop_same_shape np_map_def)
qed

lemma pairs_16:
  "concat (map (\<lambda>i. map (\<lambda>j. (i, j)) [1..<n_classes + 1]) [1..<n_classes + 1]) =
     [(1,1),(1,2),(1,3),(1,4),(2,1),(2,2),(2,3),(2,4),
      (3,1),(3,2),(3,3),(3,4),(4,1),(4,2),(4,3),(4,4)]"
  by (simp add: n_classes_def upt_rec)

lemma zeros_4: "replicate n_classes (replicate n_classes (0::nat)) =
   [[0,0,0,0],[0,0,0,0],[0,0,0,0],[0,0,0,0]]"
  by (simp add: n_classes_def eval_nat_numeral)

lemma calculate_changes_same_shape:
  assumes "well_formed a" and "well_formed b"
    and "nrows a = nrows b" and "ncols a = ncols b"
  shows "calculate_changes a b = Inr
    (map (\<lambda>i. map (\<lambda>j. count_pairs (\<lambda>p. fst p = int i \<and> snd p = int j) a b) [1,2,3,4]) [1,2,3,4])"
  unfolding calculate_changes_def pairs_16 zeros_4
  using assms
  by (simp add: np_sum_both np_sum_def filter_map comp_def count_pairs_def)

lemma label_range_cases: "label_range c \<Longrightarrow> c = 0 \<or> c = 1 \<or> c = 2 \<or> c = 3 \<or> c = 4"
  unfolding label_range_def by arith

lemma counts_total:
  assumes "\<forall>p \<in> set ps. label_range (fst p) \<and> label_range (snd p)"
  shows "sum_list (map (\<lambda>i. sum_list (map (\<lambda>j.
            length (filter (\<lambda>p. fst p = int i \<and> snd p = int j) ps)) [1, 2, 3, 4])) [1, 2, 3, 4])
         = length (filter (\<lambda>p. fst p \<noteq> 0 \<and> snd p \<noteq> 0) ps)"
  using assms
proof (induction ps)
  case Nil
  show ?case by simp
next
  case (Cons p ps)
  then have ih: "sum_list (map (\<lambda>i. sum_list (map (\<lambda>j.
            length (filter (\<lambda>p. fst p = int i \<and> snd p = int j) ps)) [1, 2, 3, 4])) [1, 2, 3, 4])
         = length (filter (\<lambda>p. fst p \<noteq> 0 \<and> snd p \<noteq> 0) ps)"
    by simp
  from Cons.prems have a: "fst p = 0 \<or> fst p = 1 \<or> fst p = 2 \<or> fst p = 3 \<or> fst p = 4"
    and b: "snd p = 0 \<or> snd p = 1 \<or> snd p = 2 \<or> snd p = 3 \<or> snd p = 4"
    by (simp_all add: label_range_cases)
  from a b ih show ?case
    by (elim disjE) simp_all
qed

lemma counts_diagonal:
  assumes "\<forall>p \<in> set ps. label_range (fst p) \<and> label_range (snd p)"
  shows "sum_list (map (\<lambda>i. length (filter (\<lambda>p. fst p = int i \<and> snd p = int i) ps)) [1, 2, 3, 4])
         = length (filter (\<lambda>p. fst p \<noteq> 0 \<and> snd p \<noteq> 0 \<and> fst p = snd p) ps)"
  using assms
proof (induction ps)
  case Nil
  show ?case by simp
next
  case (Cons p ps)
  then have ih: "sum_list (map (\<lambda>i. length (filter (\<lambda>p. fst p = int i \<and> snd p = int i) ps)) [1, 2, 3, 4])
         = length (filter (\<lambda>p. fst p \<noteq> 0 \<and> snd p \<noteq> 0 \<and> fst p = snd p) ps)"
    by simp
  from Cons.prems have a: "fst p = 0 \<or> fst p = 1 \<or> fst p = 2 \<or> fst p = 3 \<or> fst p = 4"
    and b: "snd p = 0 \<or> snd p = 1 \<or> snd p = 2 \<or> snd p = 3 \<or> snd p = 4"
    by (simp_all add: label_range_cases)
  from a b ih show ?case
    by (elim disjE) simp_all
qed

text \<open>
  C2. For two label grids of the same shape with cells in 0..4, the categorical change
  computation returns a 4x4 matrix whose entry (i-1, j-1) is the number of positions of
  class i at time 1 and class j at time 2, for i and j in 1..4; the sum of the matrix is
  the number of positions where both grids are nonzero, and its trace is the number of
  those positions whose class is the same in both grids.
\<close>

theorem C2_change_matrix:
  assumes "well_formed class_2017" and "well_formed class_2023"
    and "nrows class_2017 = nrows class_2023" and "ncols class_2017 = ncols class_2023"
    and "\<forall>c \<in> set (cells class_2017). label_range c"
    and "\<forall>c \<in> set (cells class_2023). label_range c"
  shows "\<exists>m. calculate_changes class_2017 class_2023 = Inr m
      \<and> length m = 4 \<and> (\<forall>row \<in> set m. length row = 4)
      \<and> (\<forall>i \<in> {1..4}. \<forall>j \<in> {1..4}.
            m ! (i - 1) ! (j - 1)
              = count_pairs (\<lambda>p. fst p = int i \<and> snd p = int j) class_2017 class_2023)
      \<and> matrix_sum m = count_pairs (\<lambda>p. fst p \<noteq> 0 \<and> snd p \<noteq> 0) class_2017 class_2023
      \<and> matrix_trace m
          = count_pairs (\<lambda>p. fst p \<noteq> 0 \<and> snd p \<noteq> 0 \<and> fst p = snd p) class_2017 class_2023"
proof -
  let ?c = "\<lambda>i j. count_pairs (\<lambda>p. fst p = int i \<and> snd p = int j) class_2017 class_2023"
  let ?m = "map (\<lambda>i. map (\<lambda>j. ?c i j) [1, 2, 3, 4]) [1, 2, 3, 4]"
  let ?ps = "zip (cells class_2017) (cells class_2023)"
  have m: "calculate_changes class_2017 class_2023 = Inr ?m"
    using assms(1-4) by (rule calculate_changes_same_shape)
  have rng: "\<forall>p \<in> set ?ps. label_range (fst p) \<and> label_range (snd p)"
    using assms(5,6) by (auto dest: set_zip_leftD set_zip_rightD)
  have shape: "length ?m = 4 \<and> (\<forall>row \<in> set ?m. length row = 4)"
    by simp
  have entries: "\<forall>i \<in> {1..4}. \<forall>j \<in> {1..4}. ?m ! (i - 1) ! (j - 1) = ?c i j"
  proof (intro ballI)
    fix i j :: nat
    assume "i \<in> {1..4}" and "j \<in> {1..4}"
    then have "i = 1 \<or> i = 2 \<or> i = 3 \<or> i = 4" and "j = 1 \<or> j = 2 \<or> j = 3 \<or> j = 4"
      by auto
    then show "?m ! (i - 1) ! (j - 1) = ?c i j"
      by (elim disjE) simp_all
  qed
  have total: "matrix_sum ?m = count_pairs (\<lambda>p. fst p \<noteq> 0 \<and> snd p \<noteq> 0) class_2017 class_2023"
    using counts_total [OF rng] by (simp add: matrix_sum_def count_pairs_def comp_def)
  have "matrix_trace ?m = sum_list (map (\<lambda>i. ?c i i) [1, 2, 3, 4])"
    by (simp add: matrix_trace_def upt_rec)
  also have "\<dots> = count_pairs (\<lambda>p. fst p \<noteq> 0 \<and> snd p \<noteq> 0 \<and> fst p = snd p) class_2017 class_2023"
    using counts_diagonal [OF rng] by (simp add: count_pairs_def)
  finally have diag: "matrix_trace ?m
      = count_pairs (\<lambda>p. fst p \<noteq> 0 \<and> snd p \<noteq> 0 \<and> fst p = snd p) class_2017 class_2023" .
  from m shape entries total diag show ?thesis
    by blast
qed

text \<open>
  The grid [[1, 2], [3, 4]] against itself: one pixel per diagonal entry.
\<close>

theorem C2_change_matrix_witness:
  "well_formed \<lparr>nrows = 2, ncols = 2, cells = [1, 2, 3, 4 :: int]\<rparr>
   \<and> list_all label_range (cells \<lparr>nrows = 2, ncols = 2, cells = [1, 2, 3, 4 :: int]\<rparr>)
   \<and> (\<exists>m. calculate_changes \<lparr>nrows = 2, ncols = 2, cells = [1, 2, 3, 4]\<rparr>
                              \<lparr>nrows = 2, ncols = 2, cells = [1, 2, 3, 4]\<rparr> = Inr m
          \<and> m ! 0 ! 0 = 1 \<and> m ! 0 ! 1 = 0 \<and> matrix_sum m = 4 \<and> matrix_trace m = 4)"
proof -
  let ?g = "\<lparr>nrows = 2, ncols = 2, cells = [1, 2, 3, 4 :: int]\<rparr>"
  have wf: "well_formed ?g"
    by (simp add: well_formed_def)
  have rng: "\<forall>c \<in> set (cells ?g). label_range c"
    by (simp add: label_range_def)
  from C2_change_matrix [OF wf wf refl refl rng rng]
  obtain m where m: "calculate_changes ?g ?g = Inr m"
    and e: "\<forall>i \<in> {1..4}. \<forall>j \<in> {1..4}.
            m ! (i - 1) ! (j - 1) = count_pairs (\<lambda>p. fst p = int i \<and> snd p = int j) ?g ?g"
    and s: "matrix_sum m = count_pairs (\<lambda>p. fst p \<noteq> 0 \<and> snd p \<noteq> 0) ?g ?g"
    and t: "matrix_trace m = count_pairs (\<lambda>p. fst p \<noteq> 0 \<and> snd p \<noteq> 0 \<and> fst p = snd p) ?g ?g"
    by blast
  have "m ! 0 ! 0 = 1" and "m ! 0 ! 1 = 0"
    using e [rule_format, of 1 1] e [rule_format, of 1 2]
    by (simp_all add: count_pairs_def)
  moreover from s t have "matrix_sum m = 4" and "matrix_trace m = 4"
    by (simp_all add: count_pairs_def)
  moreover have "list_all label_range (cells ?g)"
    by (simp add: label_range_def)
  ultimately show ?thesis
    using wf m by blast
qed

subsection \<open>C3: area statistics\<close>

lemma area_stats_counts:
  "calculate_area_stats change px py t =
     (real (length (filter (\<lambda>c. c = PosInf \<or> (\<exists>x. c = Fin x \<and> t < x)) (cells change)))
        * px * py / 10 ^ 6,
      real (length (filter (\<lambda>c. c = NegInf \<or> (\<exists>x. c = Fin x \<and> x < - t)) (cells change)))
        * px * py / 10 ^ 6)"
  by (simp add: calculate_area_stats_def Let_def np_sum_np_map np_greater_Fin np_less_Fin)

text \<open>
  C3. The area statistics count a cell as positive change exactly when its value is
  strictly greater than the threshold, and as negative change exactly when it is strictly
  less than minus the threshold; a NaN cell is counted as neither, so removing the NaN
  cells changes nothing. Each area is the count times pixel width times pixel height
  divided by 10^6. The default threshold is 0.1.
\<close>

theorem C3_area_stats:
  "calculate_area_stats change px py t =
     (real (length (filter (\<lambda>c. c = PosInf \<or> (\<exists>x. c = Fin x \<and> t < x)) (cells change)))
        * px * py / 10 ^ 6,
      real (length (filter (\<lambda>c. c = NegInf \<or> (\<exists>x. c = Fin x \<and> x < - t)) (cells change)))
        * px * py / 10 ^ 6)
   \<and> calculate_area_stats (change\<lparr>cells := filter (\<lambda>c. c \<noteq> NaN) (cells change)\<rparr>) px py t
       = calculate_area_stats change px py t
   \<and> default_threshold = 1 / 10"
proof -
  have "calculate_area_stats (change\<lparr>cells := filter (\<lambda>c. c \<noteq> NaN) (cells change)\<rparr>) px py t
       = calculate_area_stats change px py t"
    unfolding area_stats_counts by (simp add: filter_drop_NaN)
  then show ?thesis
    using area_stats_counts [of change px py t] by (simp add: default_threshold_def)
qed

subsection \<open>C4: epsilon-stabilized denominators\<close>

lemma no_multiple:
  "(1000000::int) * k \<noteq> - 1" "(500000::int) * k \<noteq> - 1" "(1000000::int) * k \<noteq> - 2"
proof -
  show "(1000000::int) * k \<noteq> - 1"
  proof
    assume "(1000000::int) * k = - 1"
    then have "(1000000 * k) mod 1000000 = (- 1) mod (1000000::int)" by (rule arg_cong)
    then show False by simp
  qed
  show "(500000::int) * k \<noteq> - 1"
  proof
    assume "(500000::int) * k = - 1"
    then have "(500000 * k) mod 500000 = (- 1) mod (500000::int)" by (rule arg_cong)
    then show False by simp
  qed
  show "(1000000::int) * k \<noteq> - 2"
  proof
    assume "(1000000::int) * k = - 2"
    then have "(1000000 * k) mod 1000000 = (- 2) mod (1000000::int)" by (rule arg_cong)
    then show False by simp
  qed
qed

lemma whole_not_minus_epsilon: "real_of_int z \<noteq> - epsilon"
proof
  assume "real_of_int z = - epsilon"
  then have "real_of_int (1000000 * z) = real_of_int (- 1)"
    by (simp add: epsilon_def)
  then have "1000000 * z = - 1"
    by (simp only: of_int_eq_iff)
  with no_multiple(1) show False by blast
qed

lemma half_not_minus_epsilon: "real_of_int z + 1 / 2 \<noteq> - epsilon"
proof
  assume "real_of_int z + 1 / 2 = - epsilon"
  then have "real_of_int (500000 * (2 * z + 1)) = real_of_int (- 1)"
    by (simp add: epsilon_def)
  then have "500000 * (2 * z + 1) = - 1"
    by (simp only: of_int_eq_iff)
  with no_multiple(2) show False by blast
qed

lemma evi_sum_not_minus_epsilon:
  "real_of_int a - 15 / 2 * real_of_int b + 1 \<noteq> - epsilon"
proof
  assume "real_of_int a - 15 / 2 * real_of_int b + 1 = - epsilon"
  then have "real_of_int (1000000 * (2 * a - 15 * b + 2)) = real_of_int (- 2)"
    by (simp add: epsilon_def field_simps)
  then have "1000000 * (2 * a - 15 * b + 2) = - 2"
    by (simp only: of_int_eq_iff)
  with no_multiple(3) show False by blast
qed

lemma integral_plus_epsilon:
  assumes "integral a"
  shows "add_float a epsilon \<noteq> FloatCell (Fin 0)"
proof -
  from assms obtain z where "as_float a = Fin (real_of_int z)"
    by (auto simp: integral_def)
  then show ?thesis
    using whole_not_minus_epsilon [of z] by (simp add: add_float_eq_zero)
qed

lemma integral_plus_half_epsilon:
  assumes "integral a"
  shows "add_float (add_float a (1 / 2)) epsilon \<noteq> FloatCell (Fin 0)"
proof -
  from assms obtain z where "as_float a = Fin (real_of_int z)"
    by (auto simp: integral_def)
  then show ?thesis
    using half_not_minus_epsilon [of z]
    by (simp add: add_float_eq_zero add_float_def)
qed

lemma integral_evi:
  assumes "integral a" and "integral b"
  shows "add_float (add_int (v_sub a (mul_float (15 / 2) b)) 1) epsilon \<noteq> FloatCell (Fin 0)"
proof -
  from assms obtain x y where "as_float a = Fin (real_of_int x)"
    and "as_float b = Fin (real_of_int y)"
    by (auto simp: integral_def)
  then show ?thesis
    using evi_sum_not_minus_epsilon [of x y]
    by (simp add: add_float_eq_zero mul_float_def v_sub_def np_sub_def)
qed

text \<open>
  The claim fails for float layers whose values may be negative: with a short-wave
  infrared (or near-infrared) value of -1e-6 and every other band 0, the denominators of
  BSI and NDVI are exactly 0 and the cell is the quotient of a division by zero.
\<close>

theorem C4_zero_denominator_counterexample:
  "bsi_denominator (FloatCell (Fin (- epsilon))) (FloatCell (Fin 0)) (FloatCell (Fin 0))
      (FloatCell (Fin 0)) = FloatCell (Fin 0)
   \<and> bsi_cell (FloatCell (Fin (- epsilon))) (FloatCell (Fin 0)) (FloatCell (Fin 0))
      (FloatCell (Fin 0)) = FloatCell NegInf
   \<and> ndvi_denominator (FloatCell (Fin (- epsilon))) (FloatCell (Fin 0)) = FloatCell (Fin 0)
   \<and> ndvi_cell (FloatCell (Fin (- epsilon))) (FloatCell (Fin 0)) = FloatCell NegInf"
  by (simp add: bsi_denominator_def bsi_cell_def ndvi_denominator_def ndvi_cell_def
      v_add_def v_sub_def v_div_def add_float_def np_sub_def inf_of_sign_def epsilon_def)

text \<open>
  C4 (amended). For every input, of float or of integer layers, the effective
  denominator of each of the six epsilon-stabilized functions is zero exactly when the
  sum to which 1e-6 is added equals -1e-6, and nonzero for every other input. In
  particular it is nonzero for integer layers (for SAVI with the default soil factor),
  where integer arithmetic may wrap, and it is at least 1e-6 for NDVI, NDWI, NDBI, SAVI
  and BSI on non-negative float bands with a non-negative soil factor.
\<close>

theorem C4_denominator_zero_condition:
  "((ndvi_denominator nir red = FloatCell (Fin 0))
       = (as_float (v_add nir red) = Fin (- epsilon)))
   \<and> ((ndwi_denominator green nir = FloatCell (Fin 0))
       = (as_float (v_add green nir) = Fin (- epsilon)))
   \<and> ((ndbi_denominator swir nir = FloatCell (Fin 0))
       = (as_float (v_add swir nir) = Fin (- epsilon)))
   \<and> ((savi_denominator L nir red = FloatCell (Fin 0))
       = (as_float (add_float (v_add nir red) L) = Fin (- epsilon)))
   \<and> ((evi_denominator nir red blue = FloatCell (Fin 0))
       = (as_float (add_int (v_sub (v_add nir (mul_int 6 red)) (mul_float (15 / 2) blue)) 1)
            = Fin (- epsilon)))
   \<and> ((bsi_denominator swir nir red blue = FloatCell (Fin 0))
       = (as_float (v_add (v_add swir red) (v_add nir blue)) = Fin (- epsilon)))
   \<and> ndvi_denominator (IntCell sn wn n) (IntCell sr wr r) \<noteq> FloatCell (Fin 0)
   \<and> ndwi_denominator (IntCell sg wg g) (IntCell sn wn n) \<noteq> FloatCell (Fin 0)
   \<and> ndbi_denominator (IntCell ss ws s) (IntCell sn wn n) \<noteq> FloatCell (Fin 0)
   \<and> savi_denominator default_L (IntCell sn wn n) (IntCell sr wr r) \<noteq> FloatCell (Fin 0)
   \<and> evi_denominator (IntCell sn wn n) (IntCell sr wr r) (IntCell sb wb b) \<noteq> FloatCell (Fin 0)
   \<and> bsi_denominator (IntCell ss ws s) (IntCell sn wn n) (IntCell sr wr r) (IntCell sb wb b)
        \<noteq> FloatCell (Fin 0)
   \<and> (0 \<le> fn \<and> 0 \<le> fr \<and> 0 \<le> fg \<and> 0 \<le> fb \<and> 0 \<le> fs \<and> 0 \<le> L \<longrightarrow>
        at_least epsilon (ndvi_denominator (FloatCell (Fin fn)) (FloatCell (Fin fr)))
      \<and> at_least epsilon (ndwi_denominator (FloatCell (Fin fg)) (FloatCell (Fin fn)))
      \<and> at_least epsilon (ndbi_denominator (FloatCell (Fin fs)) (FloatCell (Fin fn)))
      \<and> at_least epsilon (savi_denominator L (FloatCell (Fin fn)) (FloatCell (Fin fr)))
      \<and> at_least epsilon (bsi_denominator (FloatCell (Fin fs)) (FloatCell (Fin fn))
                            (FloatCell (Fin fr)) (FloatCell (Fin fb))))"
proof -
  have zero: "(ndvi_denominator nir red = FloatCell (Fin 0))
       = (as_float (v_add nir red) = Fin (- epsilon))"
    "(ndwi_denominator green nir = FloatCell (Fin 0))
       = (as_float (v_add green nir) = Fin (- epsilon))"
    "(ndbi_denominator swir nir = FloatCell (Fin 0))
       = (as_float (v_add swir nir) = Fin (- epsilon))"
    "(savi_denominator L nir red = FloatCell (Fin 0))
       = (as_float (add_float (v_add nir red) L) = Fin (- epsilon))"
    "(evi_denominator nir red blue = FloatCell (Fin 0))
       = (as_float (add_int (v_sub (v_add nir (mul_int 6 red)) (mul_float (15 / 2) blue)) 1)
            = Fin (- epsilon))"
    "(bsi_denominator swir nir red blue = FloatCell (Fin 0))
       = (as_float (v_add (v_add swir red) (v_add nir blue)) = Fin (- epsilon))"
    by (simp_all only: ndvi_denominator_def ndwi_denominator_def ndbi_denominator_def
        savi_denominator_def evi_denominator_def bsi_denominator_def add_float_eq_zero)
  have ints: "ndvi_denominator (IntCell sn wn n) (IntCell sr wr r) \<noteq> FloatCell (Fin 0)"
    "ndwi_denominator (IntCell sg wg g) (IntCell sn wn n) \<noteq> FloatCell (Fin 0)"
    "ndbi_denominator (IntCell ss ws s) (IntCell sn wn n) \<noteq> FloatCell (Fin 0)"
    "bsi_denominator (IntCell ss ws s) (IntCell sn wn n) (IntCell sr wr r) (IntCell sb wb b)
        \<noteq> FloatCell (Fin 0)"
    unfolding ndvi_denominator_def ndwi_denominator_def ndbi_denominator_def
      bsi_denominator_def
    by (intro integral_plus_epsilon integral_v_add integral_IntCell)+
  have savi: "savi_denominator default_L (IntCell sn wn n) (IntCell sr wr r) \<noteq> FloatCell (Fin 0)"
    unfolding savi_denominator_def default_L_def
    by (intro integral_plus_half_epsilon integral_v_add integral_IntCell)
  have evi: "evi_denominator (IntCell sn wn n) (IntCell sr wr r) (IntCell sb wb b)
       \<noteq> FloatCell (Fin 0)"
    unfolding evi_denominator_def
    by (intro integral_evi integral_v_add integral_mul_int integral_IntCell)
  have pos: "at_least epsilon (ndvi_denominator (FloatCell (Fin fn)) (FloatCell (Fin fr)))
      \<and> at_least epsilon (ndwi_denominator (FloatCell (Fin fg)) (FloatCell (Fin fn)))
      \<and> at_least epsilon (ndbi_denominator (FloatCell (Fin fs)) (FloatCell (Fin fn)))
      \<and> at_least epsilon (savi_denominator L (FloatCell (Fin fn)) (FloatCell (Fin fr)))
      \<and> at_least epsilon (bsi_denominator (FloatCell (Fin fs)) (FloatCell (Fin fn))
                            (FloatCell (Fin fr)) (FloatCell (Fin fb)))"
    if "0 \<le> fn \<and> 0 \<le> fr \<and> 0 \<le> fg \<and> 0 \<le> fb \<and> 0 \<le> fs \<and> 0 \<le> L"
    using that
    by (simp add: ndvi_denominator_def ndwi_denominator_def ndbi_denominator_def
        savi_denominator_def bsi_denominator_def v_add_def add_float_def at_least_def)
  from zero ints savi evi pos show ?thesis by blast
qed

text \<open>
  An unsigned 16-bit raster with nir = 0, red = 10923, blue = 1: 6 * red wraps to 2 and
  the denominator of EVI is -4.5 + 1e-6. Float bands that are all 0 give the denominator
  1e-6 (1/2 + 1e-6 for SAVI).
\<close>

theorem C4_denominator_zero_condition_witness:
  "evi_denominator (IntCell False 16 0) (IntCell False 16 10923) (IntCell False 16 1)
     = FloatCell (Fin (- 9 / 2 + epsilon))
   \<and> evi_denominator (IntCell False 16 0) (IntCell False 16 10923) (IntCell False 16 1)
     \<noteq> FloatCell (Fin 0)
   \<and> ndvi_denominator (FloatCell (Fin 0)) (FloatCell (Fin 0)) = FloatCell (Fin epsilon)
   \<and> at_least epsilon (ndvi_denominator (FloatCell (Fin 0)) (FloatCell (Fin 0)))
   \<and> at_least epsilon (ndwi_denominator (FloatCell (Fin 0)) (FloatCell (Fin 0)))
   \<and> at_least epsilon (ndbi_denominator (FloatCell (Fin 0)) (FloatCell (Fin 0)))
   \<and> savi_denominator default_L (FloatCell (Fin 0)) (FloatCell (Fin 0))
     = FloatCell (Fin (1 / 2 + epsilon))
   \<and> at_least epsilon (savi_denominator default_L (FloatCell (Fin 0)) (FloatCell (Fin 0)))
   \<and> at_least epsilon (bsi_denominator (FloatCell (Fin 0)) (FloatCell (Fin 0))
        (FloatCell (Fin 0)) (FloatCell (Fin 0)))"
proof -
  have e: "evi_denominator (IntCell False 16 0) (IntCell False 16 10923) (IntCell False 16 1)
     = FloatCell (Fin (- 9 / 2 + epsilon))"
    by (simp add: evi_denominator_def v_add_def v_sub_def mul_float_def add_float_def
        result_type_def wrap_def np_sub_def)
  have f: "ndvi_denominator (FloatCell (Fin 0)) (FloatCell (Fin 0)) = FloatCell (Fin epsilon)"
    "savi_denominator default_L (FloatCell (Fin 0)) (FloatCell (Fin 0))
     = FloatCell (Fin (1 / 2 + epsilon))"
    by (simp_all add: ndvi_denominator_def savi_denominator_def v_add_def add_float_def
        default_L_def)
  have h: "(0::real) \<le> 0 \<and> (0::real) \<le> 0 \<and> (0::real) \<le> 0 \<and> (0::real) \<le> 0
      \<and> (0::real) \<le> 0 \<and> 0 \<le> default_L"
    by (simp add: default_L_def)
  from C4_denominator_zero_condition
    [of "FloatCell (Fin 0)" "FloatCell (Fin 0)" "FloatCell (Fin 0)" "FloatCell (Fin 0)"
        default_L "FloatCell (Fin 0)" False 16 0 False 16 10923 False 16 0 False 16 0
        False 16 1 0 0 0 0 0] h e f
  show ?thesis by blast
qed

subsection \<open>C5: grids of different shape\<close>

lemma fill_change_matrix_compatible:
  "compatible (shape a) (shape b) \<Longrightarrow> \<exists>m'. fill_change_matrix a b ps m = Inr m'"
proof (induction ps arbitrary: m)
  case Nil
  show ?case by simp
next
  case (Cons p ps)
  obtain i j where p: "p = (i, j)" by (cases p)
  from Cons.prems obtain g where
    "np_binop (\<and>) (np_map (\<lambda>c. c = int i) a) (np_map (\<lambda>c. c = int j) b) = Inr g"
    using np_binop_compatible [of "np_map (\<lambda>c. c = int i) a" "np_map (\<lambda>c. c = int j) b"]
    by auto
  with Cons p show ?case by simp
qed

lemma fill_change_matrix_error:
  "fill_change_matrix a b ps m = Inl e \<Longrightarrow> e = LibraryError ValueError"
proof (induction ps arbitrary: m)
  case Nil
  then show ?case by simp
next
  case (Cons p ps)
  obtain i j where p: "p = (i, j)" by (cases p)
  from Cons p show ?case
    by (auto split: sum.splits dest: np_binop_error)
qed

lemma calculate_changes_incompatible:
  assumes "\<not> compatible (shape a) (shape b)"
  shows "calculate_changes a b = Inl (LibraryError ValueError)"
proof -
  have "np_binop (\<and>) (np_map (\<lambda>c. c = int 1) a) (np_map (\<lambda>c. c = int 1) b)
          = Inl (LibraryError ValueError)"
    using assms by (intro np_binop_incompatible) simp
  then show ?thesis
    unfolding calculate_changes_def pairs_16 by simp
qed

lemma strict_index_shape:
  assumes "nrows a = nrows b" and "ncols a = ncols b"
  shows "\<exists>g. bind (np_binop np_add a b) (\<lambda>denominator.
              bind (np_binop np_sub a b) (\<lambda>numerator.
              np_binop np_div numerator (mask_zero denominator))) = Inr g
            \<and> shape g = shape a"
  using assms
  by (simp add: np_binop_same_shape bind_def mask_zero_def np_map_def shape_def)

lemma band_present:
  "k < length (bands img) \<Longrightarrow>
   band img k = Inr \<lparr>nrows = height img, ncols = width img, cells = bands img ! k\<rparr>"
  by (simp add: band_def)

lemma cd_calculate_ndvi_shape:
  assumes "4 \<le> length (bands img)"
  shows "\<exists>g. cd_calculate_ndvi img = Inr g \<and> shape g = image_shape img"
proof -
  let ?nir = "\<lparr>nrows = height img, ncols = width img, cells = bands img ! 3\<rparr>"
  let ?red = "\<lparr>nrows = height img, ncols = width img, cells = bands img ! 2\<rparr>"
  from assms have "band img 3 = Inr ?nir" and "band img 2 = Inr ?red"
    by (simp_all add: band_present)
  then show ?thesis
    using strict_index_shape [of ?nir ?red]
    by (simp add: cd_calculate_ndvi_def bind_def shape_def image_shape_def)
qed

lemma cd_calculate_ndwi_shape:
  assumes "4 \<le> length (bands img)"
  shows "\<exists>g. cd_calculate_ndwi img = Inr g \<and> shape g = image_shape img"
proof -
  let ?green = "\<lparr>nrows = height img, ncols = width img, cells = bands img ! 1\<rparr>"
  let ?nir = "\<lparr>nrows = height img, ncols = width img, cells = bands img ! 3\<rparr>"
  from assms have "band img 1 = Inr ?green" and "band img 3 = Inr ?nir"
    by (simp_all add: band_present)
  then show ?thesis
    using strict_index_shape [of ?green ?nir]
    by (simp add: cd_calculate_ndwi_def bind_def shape_def image_shape_def)
qed

lemma cd_calculate_ndbi_shape:
  assumes "4 \<le> length (bands img)"
  shows "\<exists>g. cd_calculate_ndbi img = Inr g \<and> shape g = image_shape img"
proof -
  let ?swir = "\<lparr>nrows = height img, ncols = width img, cells = bands img ! 0\<rparr>"
  let ?nir = "\<lparr>nrows = height img, ncols = width img, cells = bands img ! 3\<rparr>"
  from assms have "0 < length (bands img)" and "3 < length (bands img)"
    by linarith+
  then have "band img 0 = Inr ?swir" and "band img 3 = Inr ?nir"
    by (simp_all only: band_present)
  then show ?thesis
    using strict_index_shape [of ?swir ?nir]
    by (simp add: cd_calculate_ndbi_def bind_def shape_def image_shape_def)
qed

lemma compatible_sym: "compatible s t \<Longrightarrow> compatible t s"
  by (auto simp: compatible_def broadcast_dim_def split: if_splits)

lemma detect_changes_incompatible:
  assumes "4 \<le> length (bands image_2018)" and "4 \<le> length (bands image_2023)"
    and "\<not> compatible (image_shape image_2018) (image_shape image_2023)"
  shows "detect_changes image_2018 image_2023 = Inl (LibraryError ValueError)"
proof -
  obtain v18 where v18: "cd_calculate_ndvi image_2018 = Inr v18" "shape v18 = image_shape image_2018"
    using cd_calculate_ndvi_shape [OF assms(1)] by blast
  obtain v23 where v23: "cd_calculate_ndvi image_2023 = Inr v23" "shape v23 = image_shape image_2023"
    using cd_calculate_ndvi_shape [OF assms(2)] by blast
  have "\<not> compatible (shape v23) (shape v18)"
    using assms(3) v18 v23 by (auto simp: compatible_def broadcast_dim_def split: if_splits)
  then have "np_binop np_sub v23 v18 = Inl (LibraryError ValueError)"
    by (rule np_binop_incompatible)
  with v18 v23 show ?thesis
    by (simp add: detect_changes_def bind_def)
qed

lemma detect_changes_compatible:
  assumes "4 \<le> length (bands image_2018)" and "4 \<le> length (bands image_2023)"
    and "compatible (image_shape image_2018) (image_shape image_2023)"
  shows "\<exists>r. detect_changes image_2018 image_2023 = Inr r"
proof -
  obtain v18 where v18: "cd_calculate_ndvi image_2018 = Inr v18" "shape v18 = image_shape image_2018"
    using cd_calculate_ndvi_shape [OF assms(1)] by blast
  obtain v23 where v23: "cd_calculate_ndvi image_2023 = Inr v23" "shape v23 = image_shape image_2023"
    using cd_calculate_ndvi_shape [OF assms(2)] by blast
  obtain w18 where w18: "cd_calculate_ndwi image_2018 = Inr w18" "shape w18 = image_shape image_2018"
    using cd_calculate_ndwi_shape [OF assms(1)] by blast
  obtain w23 where w23: "cd_calculate_ndwi image_2023 = Inr w23" "shape w23 = image_shape image_2023"
    using cd_calculate_ndwi_shape [OF assms(2)] by blast
  obtain b18 where b18: "cd_calculate_ndbi image_2018 = Inr b18" "shape b18 = image_shape image_2018"
    using cd_calculate_ndbi_shape [OF assms(1)] by blast
  obtain b23 where b23: "cd_calculate_ndbi image_2023 = Inr b23" "shape b23 = image_shape image_2023"
    using cd_calculate_ndbi_shape [OF assms(2)] by blast
  have c: "compatible (image_shape image_2023) (image_shape image_2018)"
    using assms(3) by (rule compatible_sym)
  obtain dv where dv: "np_binop np_sub v23 v18 = Inr dv"
    using np_binop_compatible [of v23 v18 np_sub] c v18 v23 by auto
  obtain dw where dw: "np_binop np_sub w23 w18 = Inr dw"
    using np_binop_compatible [of w23 w18 np_sub] c w18 w23 by auto
  obtain db where db: "np_binop np_sub b23 b18 = Inr db"
    using np_binop_compatible [of b23 b18 np_sub] c b18 b23 by auto
  from v18 v23 w18 w23 b18 b23 dv dw db show ?thesis
    by (simp add: detect_changes_def bind_def)
qed

text \<open>
  The claim fails: a 1x1 grid and a 2x2 grid differ in width and height, and both modes
  return a result, the single cell being repeated over the larger grid.
\<close>

theorem C5_broadcast_counterexample:
  "calculate_changes \<lparr>nrows = 1, ncols = 1, cells = [1]\<rparr>
                     \<lparr>nrows = 2, ncols = 2, cells = [1, 2, 3, 4]\<rparr>
     = Inr [[1, 1, 1, 1], [0, 0, 0, 0], [0, 0, 0, 0], [0, 0, 0, 0]]
   \<and> detect_changes
        \<lparr>height = 1, width = 1, bands = [[Fin 1], [Fin 1], [Fin 1], [Fin 3]]\<rparr>
        \<lparr>height = 2, width = 2,
         bands = [[Fin 1, Fin 1, Fin 1, Fin 1], [Fin 1, Fin 1, Fin 1, Fin 1],
                  [Fin 1, Fin 1, Fin 1, Fin 1], [Fin 1, Fin 1, Fin 1, Fin 1]]\<rparr>
     = Inr \<lparr>ndvi = \<lparr>at_2018 = \<lparr>nrows = 1, ncols = 1, cells = [Fin (1 / 2)]\<rparr>,
                     at_2023 = \<lparr>nrows = 2, ncols = 2, cells = [Fin 0, Fin 0, Fin 0, Fin 0]\<rparr>,
                     difference = \<lparr>nrows = 2, ncols = 2,
                       cells = [Fin (- 1 / 2), Fin (- 1 / 2), Fin (- 1 / 2), Fin (- 1 / 2)]\<rparr>\<rparr>,
            ndwi = \<lparr>at_2018 = \<lparr>nrows = 1, ncols = 1, cells = [Fin (- 1 / 2)]\<rparr>,
                     at_2023 = \<lparr>nrows = 2, ncols = 2, cells = [Fin 0, Fin 0, Fin 0, Fin 0]\<rparr>,
                     difference = \<lparr>nrows = 2, ncols = 2,
                       cells = [Fin (1 / 2), Fin (1 / 2), Fin (1 / 2), Fin (1 / 2)]\<rparr>\<rparr>,
            ndbi = \<lparr>at_2018 = \<lparr>nrows = 1, ncols = 1, cells = [Fin (- 1 / 2)]\<rparr>,
                     at_2023 = \<lparr>nrows = 2, ncols = 2, cells = [Fin 0, Fin 0, Fin 0, Fin 0]\<rparr>,
                     difference = \<lparr>nrows = 2, ncols = 2,
                       cells = [Fin (1 / 2), Fin (1 / 2), Fin (1 / 2), Fin (1 / 2)]\<rparr>\<rparr>\<rparr>"
proof -
  have "calculate_changes \<lparr>nrows = 1, ncols = 1, cells = [1]\<rparr>
                     \<lparr>nrows = 2, ncols = 2, cells = [1, 2, 3, 4]\<rparr>
     = Inr [[1, 1, 1, 1], [0, 0, 0, 0], [0, 0, 0, 0], [0, 0, 0, 0]]"
    unfolding calculate_changes_def pairs_16 zeros_4
    by (simp add: np_binop_def broadcast_dim_def cell_at_def np_map_def np_sum_def upt_4)
  moreover have "detect_changes
        \<lparr>height = 1, width = 1, bands = [[Fin 1], [Fin 1], [Fin 1], [Fin 3]]\<rparr>
        \<lparr>height = 2, width = 2,
         bands = [[Fin 1, Fin 1, Fin 1, Fin 1], [Fin 1, Fin 1, Fin 1, Fin 1],
                  [Fin 1, Fin 1, Fin 1, Fin 1], [Fin 1, Fin 1, Fin 1, Fin 1]]\<rparr>
     = Inr \<lparr>ndvi = \<lparr>at_2018 = \<lparr>nrows = 1, ncols = 1, cells = [Fin (1 / 2)]\<rparr>,
                     at_2023 = \<lparr>nrows = 2, ncols = 2, cells = [Fin 0, Fin 0, Fin 0, Fin 0]\<rparr>,
                     difference = \<lparr>nrows = 2, ncols = 2,
                       cells = [Fin (- 1 / 2), Fin (- 1 / 2), Fin (- 1 / 2), Fin (- 1 / 2)]\<rparr>\<rparr>,
            ndwi = \<lparr>at_2018 = \<lparr>nrows = 1, ncols = 1, cells = [Fin (- 1 / 2)]\<rparr>,
                     at_2023 = \<lparr>nrows = 2, ncols = 2, cells = [Fin 0, Fin 0, Fin 0, Fin 0]\<rparr>,
                     difference = \<lparr>nrows = 2, ncols = 2,
                       cells = [Fin (1 / 2), Fin (1 / 2), Fin (1 / 2), Fin (1 / 2)]\<rparr>\<rparr>,
            ndbi = \<lparr>at_2018 = \<lparr>nrows = 1, ncols = 1, cells = [Fin (- 1 / 2)]\<rparr>,
                     at_2023 = \<lparr>nrows = 2, ncols = 2, cells = [Fin 0, Fin 0, Fin 0, Fin 0]\<rparr>,
                     difference = \<lparr>nrows = 2, ncols = 2,
                       cells = [Fin (1 / 2), Fin (1 / 2), Fin (1 / 2), Fin (1 / 2)]\<rparr>\<rparr>\<rparr>"
    by (simp add: detect_changes_def cd_calculate_ndvi_def cd_calculate_ndwi_def
        cd_calculate_ndbi_def band_def bind_def np_binop_def broadcast_dim_def cell_at_def
        mask_zero_def np_map_def np_sub_def upt_4)
  ultimately show ?thesis by simp
qed

text \<open>
  C5 (amended). Neither mode raises ShapeMismatchError. When the shapes of the two
  inputs cannot be broadcast (an axis has different lengths, neither of them 1), both
  modes fail with NumPy's ValueError; when they can, both modes return a result. For the
  continuous mode each image has at least four bands.
\<close>

theorem C5_shape_mismatch_behaviour:
  assumes "4 \<le> length (bands image_2018)" and "4 \<le> length (bands image_2023)"
  shows "(\<not> compatible (image_shape image_2018) (image_shape image_2023) \<longrightarrow>
            detect_changes image_2018 image_2023 = Inl (LibraryError ValueError))
       \<and> (compatible (image_shape image_2018) (image_shape image_2023) \<longrightarrow>
            (\<exists>r. detect_changes image_2018 image_2023 = Inr r))
       \<and> (\<not> compatible (shape class_2017) (shape class_2023) \<longrightarrow>
            calculate_changes class_2017 class_2023 = Inl (LibraryError ValueError))
       \<and> (compatible (shape class_2017) (shape class_2023) \<longrightarrow>
            (\<exists>m. calculate_changes class_2017 class_2023 = Inr m))
       \<and> detect_changes image_2018 image_2023 \<noteq> Inl ShapeMismatchError
       \<and> calculate_changes class_2017 class_2023 \<noteq> Inl ShapeMismatchError"
proof -
  have d1: "\<not> compatible (image_shape image_2018) (image_shape image_2023) \<longrightarrow>
            detect_changes image_2018 image_2023 = Inl (LibraryError ValueError)"
    using detect_changes_incompatible [OF assms] by blast
  have d2: "compatible (image_shape image_2018) (image_shape image_2023) \<longrightarrow>
            (\<exists>r. detect_changes image_2018 image_2023 = Inr r)"
    using detect_changes_compatible [OF assms] by blast
  have c1: "\<not> compatible (shape class_2017) (shape class_2023) \<longrightarrow>
            calculate_changes class_2017 class_2023 = Inl (LibraryError ValueError)"
    using calculate_changes_incompatible by blast
  have c2: "compatible (shape class_2017) (shape class_2023) \<longrightarrow>
            (\<exists>m. calculate_changes class_2017 class_2023 = Inr m)"
    unfolding calculate_changes_def using fill_change_matrix_compatible by blast
  have d3: "detect_changes image_2018 image_2023 \<noteq> Inl ShapeMismatchError"
    using d1 d2 by (cases "compatible (image_shape image_2018) (image_shape image_2023)") auto
  have c3: "calculate_changes class_2017 class_2023 \<noteq> Inl ShapeMismatchError"
    unfolding calculate_changes_def using fill_change_matrix_error by blast
  from d1 d2 c1 c2 d3 c3 show ?thesis by blast
qed

text \<open>
  Widths 2 and 3 cannot be broadcast; shapes 1x1 and 2x2 can.
\<close>

theorem C5_shape_mismatch_witness:
  "detect_changes
      \<lparr>height = 1, width = 2, bands = [[Fin 1, Fin 1], [Fin 1, Fin 1], [Fin 1, Fin 1], [Fin 1, Fin 1]]\<rparr>
      \<lparr>height = 1, width = 3, bands = [[Fin 1, Fin 1, Fin 1], [Fin 1, Fin 1, Fin 1],
                                        [Fin 1, Fin 1, Fin 1], [Fin 1, Fin 1, Fin 1]]\<rparr>
     = Inl (LibraryError ValueError)
   \<and> calculate_changes \<lparr>nrows = 1, ncols = 2, cells = [1, 2]\<rparr>
                       \<lparr>nrows = 1, ncols = 3, cells = [1, 2, 3]\<rparr>
     = Inl (LibraryError ValueError)
   \<and> (\<exists>r. detect_changes
        \<lparr>height = 1, width = 1, bands = [[Fin 1], [Fin 1], [Fin 1], [Fin 3]]\<rparr>
        \<lparr>height = 2, width = 2,
         bands = [[Fin 1, Fin 1, Fin 1, Fin 1], [Fin 1, Fin 1, Fin 1, Fin 1],
                  [Fin 1, Fin 1, Fin 1, Fin 1], [Fin 1, Fin 1, Fin 1, Fin 1]]\<rparr> = Inr r)
   \<and> (\<exists>m. calculate_changes \<lparr>nrows = 1, ncols = 1, cells = [1]\<rparr>
                              \<lparr>nrows = 2, ncols = 2, cells = [1, 2, 3, 4]\<rparr> = Inr m)"
  using C5_shape_mismatch_behaviour
      [of "\<lparr>height = 1, width = 2,
            bands = [[Fin 1, Fin 1], [Fin 1, Fin 1], [Fin 1, Fin 1], [Fin 1, Fin 1]]\<rparr>"
          "\<lparr>height = 1, width = 3,
            bands = [[Fin 1, Fin 1, Fin 1], [Fin 1, Fin 1, Fin 1],
                     [Fin 1, Fin 1, Fin 1], [Fin 1, Fin 1, Fin 1]]\<rparr>"
          "\<lparr>nrows = 1, ncols = 2, cells = [1, 2]\<rparr>"
          "\<lparr>nrows = 1, ncols = 3, cells = [1, 2, 3]\<rparr>"]
    C5_shape_mismatch_behaviour
      [of "\<lparr>height = 1, width = 1, bands = [[Fin 1], [Fin 1], [Fin 1], [Fin 3]]\<rparr>"
          "\<lparr>height = 2, width = 2,
            bands = [[Fin 1, Fin 1, Fin 1, Fin 1], [Fin 1, Fin 1, Fin 1, Fin 1],
                     [Fin 1, Fin 1, Fin 1, Fin 1], [Fin 1, Fin 1, Fin 1, Fin 1]]\<rparr>"
          "\<lparr>nrows = 1, ncols = 1, cells = [1]\<rparr>"
          "\<lparr>nrows = 2, ncols = 2, cells = [1, 2, 3, 4]\<rparr>"]
  by (simp add: compatible_def image_shape_def shape_def broadcast_dim_def)

subsection \<open>C6: training on a single class\<close>

text \<open>
  The claim fails: training on two rows that are both of class 2 stores a fitted model.
\<close>

theorem C6_single_class_counterexample:
  "train example_sklearn init [[Fin 1], [Fin 2]] [2, 2]
     = Inr \<lparr>model = Some \<lparr>classes = [2], feature_importances = [0], predict_row = always 2\<rparr>,
            feature_names = [''NDVI'', ''NDWI'', ''NDBI''],
            class_names = [''Water'', ''Vegetation'', ''Built-up'', ''Barren'']\<rparr>"
  by (simp add: train_def example_sklearn_def constant_forest_fit_def lift_def bind_def init_def)

text \<open>
  C6 (amended). Training makes no check of its own and never raises
  InsufficientClassesError: when the library's fit returns a forest, the classifier
  holds it; when fit raises, that exception is the outcome.
\<close>

theorem C6_train_delegates:
  "train sk self X_train y_train \<noteq> Inl InsufficientClassesError
   \<and> (\<forall>m. fit sk X_train y_train = Inr m \<longrightarrow>
          train sk self X_train y_train = Inr (self\<lparr>model := Some m\<rparr>))
   \<and> (\<forall>e. fit sk X_train y_train = Inl e \<longrightarrow>
          train sk self X_train y_train = Inl (LibraryError e))"
  by (auto simp: train_def lift_def bind_def split: sum.splits)

text \<open>
  Both outcomes, with the constant forest: single-class rows are fitted, no rows at
  all are rejected by the library.
\<close>

theorem C6_train_delegates_witness:
  "fit example_sklearn [[Fin 1], [Fin 2]] [2, 2]
     = Inr \<lparr>classes = [2], feature_importances = [0], predict_row = always 2\<rparr>
   \<and> train example_sklearn init [[Fin 1], [Fin 2]] [2, 2]
     = Inr (init\<lparr>model := Some \<lparr>classes = [2], feature_importances = [0],
                                 predict_row = always 2\<rparr>\<rparr>)
   \<and> fit example_sklearn [] [] = Inl ValueError
   \<and> train example_sklearn init [] [] = Inl (LibraryError ValueError)"
proof -
  have f: "fit example_sklearn [[Fin 1], [Fin 2]] [2, 2]
     = Inr \<lparr>classes = [2], feature_importances = [0], predict_row = always 2\<rparr>"
    by (simp add: example_sklearn_def constant_forest_fit_def)
  have g: "fit example_sklearn [] [] = Inl ValueError"
    by (simp add: example_sklearn_def constant_forest_fit_def)
  from f g C6_train_delegates [of example_sklearn init "[[Fin 1], [Fin 2]]" "[2, 2]"]
    C6_train_delegates [of example_sklearn init "[]" "[]"]
  show ?thesis by simp
qed

subsection \<open>C7: feature importance\<close>

text \<open>
  The claim fails: for a forest fitted on four features with importance 1/4 each, the
  query names three features only and the scores sum to 3/4; on the classifier that was
  never trained the error is scikit-learn's NotFittedError.
\<close>

theorem C7_truncated_importance_counterexample:
  "get_feature_importance
      (init\<lparr>model := Some \<lparr>classes = [1, 2],
                            feature_importances = [1 / 4, 1 / 4, 1 / 4, 1 / 4],
                            predict_row = always 1\<rparr>\<rparr>)
     = Inr [(''NDVI'', 1 / 4), (''NDWI'', 1 / 4), (''NDBI'', 1 / 4)]
   \<and> sum_list [1 / 4, 1 / 4, 1 / 4, 1 / 4 :: real] = 1
   \<and> sum_list (map snd [(''NDVI'', 1 / 4 :: real), (''NDWI'', 1 / 4), (''NDBI'', 1 / 4)]) = 3 / 4
   \<and> get_feature_importance init = Inl (LibraryError NotFittedError)"
  by (simp add: get_feature_importance_def init_def py_dict_def)

lemma short_list_cases:
  "length xs \<le> 3 \<Longrightarrow> xs = [] \<or> (\<exists>a. xs = [a]) \<or> (\<exists>a b. xs = [a, b]) \<or> (\<exists>a b c. xs = [a, b, c])"
  by (cases xs; cases "tl xs"; cases "tl (tl xs)"; cases "tl (tl (tl xs))") auto

lemma py_dict_three_names:
  assumes "length vs \<le> 3"
  shows "py_dict (zip [''NDVI'', ''NDWI'', ''NDBI''] vs) = zip [''NDVI'', ''NDWI'', ''NDBI''] vs"
  using short_list_cases [OF assms] by (auto simp: py_dict_def)

text \<open>
  C7 (amended). For a classifier with the feature names NDVI, NDWI, NDBI whose fitted
  forest has at most three features, the query returns the forest's importance scores,
  in order, under the first names of that list: the scores are non-negative and sum to
  1 whenever the forest's are. On an untrained classifier the query fails with the
  library's NotFittedError, never with NotTrainedError.
\<close>

theorem C7_feature_importance:
  assumes "feature_names self = [''NDVI'', ''NDWI'', ''NDBI'']"
  shows "(model self = None \<longrightarrow> get_feature_importance self = Inl (LibraryError NotFittedError))
       \<and> (\<forall>m. model self = Some m \<and> length (feature_importances m) \<le> 3 \<longrightarrow>
            (\<exists>d. get_feature_importance self = Inr d
                \<and> map fst d = take (length (feature_importances m)) (feature_names self)
                \<and> map snd d = feature_importances m
                \<and> ((\<forall>v \<in> set (feature_importances m). 0 \<le> v) \<longrightarrow> (\<forall>s \<in> set (map snd d). 0 \<le> s))
                \<and> (sum_list (feature_importances m) = 1 \<longrightarrow> sum_list (map snd d) = 1)))
       \<and> get_feature_importance self \<noteq> Inl NotTrainedError"
proof -
  have a: "model self = None \<longrightarrow> get_feature_importance self = Inl (LibraryError NotFittedError)"
    by (simp add: get_feature_importance_def)
  have b: "\<exists>d. get_feature_importance self = Inr d
                \<and> map fst d = take (length (feature_importances m)) (feature_names self)
                \<and> map snd d = feature_importances m
                \<and> ((\<forall>v \<in> set (feature_importances m). 0 \<le> v) \<longrightarrow> (\<forall>s \<in> set (map snd d). 0 \<le> s))
                \<and> (sum_list (feature_importances m) = 1 \<longrightarrow> sum_list (map snd d) = 1)"
    if m: "model self = Some m" and l: "length (feature_importances m) \<le> 3" for m
  proof -
    let ?d = "zip [''NDVI'', ''NDWI'', ''NDBI''] (feature_importances m)"
    have g: "get_feature_importance self = Inr ?d"
      using m assms py_dict_three_names [OF l] by (simp add: get_feature_importance_def)
    have v: "map snd ?d = feature_importances m"
      using l by (simp add: map_snd_zip_take)
    have k: "map fst ?d = take (length (feature_importances m)) (feature_names self)"
      using l assms by (simp add: map_fst_zip_take)
    show ?thesis
      by (rule exI [of _ ?d]) (simp only: g v k, simp)
  qed
  have c: "get_feature_importance self \<noteq> Inl NotTrainedError"
    by (simp add: get_feature_importance_def split: option.splits)
  from a b c show ?thesis by blast
qed

text \<open>
  The untrained classifier, and a forest with importances 1/2, 1/4, 1/4.
\<close>

theorem C7_feature_importance_witness:
  "feature_names init = [''NDVI'', ''NDWI'', ''NDBI'']
   \<and> get_feature_importance init = Inl (LibraryError NotFittedError)
   \<and> get_feature_importance
        (init\<lparr>model := Some \<lparr>classes = [1, 2], feature_importances = [1 / 2, 1 / 4, 1 / 4],
                              predict_row = always 1\<rparr>\<rparr>)
       = Inr [(''NDVI'', 1 / 2), (''NDWI'', 1 / 4), (''NDBI'', 1 / 4)]
   \<and> sum_list (map snd [(''NDVI'', 1 / 2 :: real), (''NDWI'', 1 / 4), (''NDBI'', 1 / 4)]) = 1"
proof -
  let ?m = "\<lparr>classes = [1, 2], feature_importances = [1 / 2, 1 / 4, 1 / 4 :: real],
             predict_row = always 1\<rparr>"
  have n: "feature_names init = [''NDVI'', ''NDWI'', ''NDBI'']"
    and n': "feature_names (init\<lparr>model := Some ?m\<rparr>) = [''NDVI'', ''NDWI'', ''NDBI'']"
    by (simp_all add: init_def)
  from C7_feature_importance [OF n]
  have u: "get_feature_importance init = Inl (LibraryError NotFittedError)"
    by (simp add: init_def)
  from C7_feature_importance [OF n'] obtain d where
    d: "get_feature_importance (init\<lparr>model := Some ?m\<rparr>) = Inr d"
    and k: "map fst d = take 3 [''NDVI'', ''NDWI'', ''NDBI'']"
    and v: "map snd d = [1 / 2, 1 / 4, 1 / 4]"
    and s: "sum_list (map snd d) = 1"
    by (auto simp: init_def)
  from k v have "d = [(''NDVI'', 1 / 2), (''NDWI'', 1 / 4), (''NDBI'', 1 / 4)]"
    by (auto simp: map_eq_Cons_conv)
  with n u d show ?thesis by simp
qed

subsection \<open>C8: the validator\<close>

lemma calculate_metrics_error:
  "calculate_metrics lib t p names = Inl e \<Longrightarrow> \<exists>l. e = LibraryError l"
  by (auto simp: calculate_metrics_def bind_def lift_def split: sum.splits)

text \<open>
  The claim fails: a 2x3 prediction and a 3x2 ground truth differ in width and height,
  and the metrics are computed from their cells paired in row-major order; a ground truth
  that is all background hands empty arrays to the library.
\<close>

theorem C8_label_mismatch_counterexample:
  "validate_classification echo_metrics
      \<lparr>nrows = 2, ncols = 3, cells = [1, 2, 3, 4, 1, 2]\<rparr>
      \<lparr>nrows = 3, ncols = 2, cells = [1, 2, 3, 4, 0, 2]\<rparr>
     = Inr ([(1, 1), (2, 2), (3, 3), (4, 4), (2, 2)],
            [''Water'', ''Vegetation'', ''Built-up'', ''Barren''])
   \<and> validate_classification echo_metrics
      \<lparr>nrows = 2, ncols = 2, cells = [1, 2, 3, 4]\<rparr>
      \<lparr>nrows = 2, ncols = 2, cells = [0, 0, 0, 0]\<rparr>
     = Inr ([], [''Water'', ''Vegetation'', ''Built-up'', ''Barren''])"
  by (simp add: validate_classification_def boolean_index_def bind_def calculate_metrics_def
      lift_def echo_metrics_def echo_confusion_matrix_def echo_classification_report_def)

text \<open>
  C8 (amended). The validator fails with NumPy's IndexError when the two grids hold
  different numbers of cells. Otherwise it drops exactly the positions whose ground-truth
  label is 0 and computes the library's metrics from what remains, whatever the shapes
  and even when nothing remains. It never raises ShapeMismatchError or
  EmptyLabelSetError.
\<close>

theorem C8_validator_behaviour:
  "(length (cells prediction) \<noteq> length (cells ground_truth) \<longrightarrow>
      validate_classification lib prediction ground_truth = Inl (LibraryError IndexError))
   \<and> (length (cells prediction) = length (cells ground_truth) \<longrightarrow>
      validate_classification lib prediction ground_truth
        = calculate_metrics lib
            (filter (\<lambda>c. c \<noteq> 0) (cells ground_truth))
            (map fst (filter (\<lambda>p. snd p \<noteq> 0) (zip (cells prediction) (cells ground_truth))))
            [''Water'', ''Vegetation'', ''Built-up'', ''Barren''])
   \<and> validate_classification lib prediction ground_truth \<noteq> Inl ShapeMismatchError
   \<and> validate_classification lib prediction ground_truth \<noteq> Inl EmptyLabelSetError"
proof -
  have a: "length (cells prediction) \<noteq> length (cells ground_truth) \<longrightarrow>
      validate_classification lib prediction ground_truth = Inl (LibraryError IndexError)"
    by (simp add: validate_classification_def Let_def boolean_index_mismatch bind_def)
  have b: "length (cells prediction) = length (cells ground_truth) \<longrightarrow>
      validate_classification lib prediction ground_truth
        = calculate_metrics lib
            (filter (\<lambda>c. c \<noteq> 0) (cells ground_truth))
            (map fst (filter (\<lambda>p. snd p \<noteq> 0) (zip (cells prediction) (cells ground_truth))))
            [''Water'', ''Vegetation'', ''Built-up'', ''Barren'']"
    by (simp add: validate_classification_def Let_def boolean_index_same_length
        boolean_index_self bind_def)
  have c: "validate_classification lib prediction ground_truth \<noteq> Inl ShapeMismatchError
     \<and> validate_classification lib prediction ground_truth \<noteq> Inl EmptyLabelSetError"
  proof (cases "length (cells prediction) = length (cells ground_truth)")
    case True
    with b show ?thesis by (auto dest: calculate_metrics_error)
  next
    case False
    with a show ?thesis by simp
  qed
  from a b c show ?thesis by blast
qed

text \<open>
  A 100x100 prediction against a 50x50 ground truth, and two 1x3 grids.
\<close>

theorem C8_validator_witness:
  "validate_classification echo_metrics
      \<lparr>nrows = 100, ncols = 100, cells = replicate 10000 1\<rparr>
      \<lparr>nrows = 50, ncols = 50, cells = replicate 2500 1\<rparr>
     = Inl (LibraryError IndexError)
   \<and> validate_classification echo_metrics
      \<lparr>nrows = 1, ncols = 3, cells = [1, 2, 3]\<rparr>
      \<lparr>nrows = 1, ncols = 3, cells = [0, 2, 4]\<rparr>
     = Inr ([(2, 2), (4, 3)], [''Water'', ''Vegetation'', ''Built-up'', ''Barren''])"
  using C8_validator_behaviour
      [of "\<lparr>nrows = 100, ncols = 100, cells = replicate 10000 1\<rparr>"
          "\<lparr>nrows = 50, ncols = 50, cells = replicate 2500 1\<rparr>" echo_metrics]
    C8_validator_behaviour
      [of "\<lparr>nrows = 1, ncols = 3, cells = [1, 2, 3]\<rparr>"
          "\<lparr>nrows = 1, ncols = 3, cells = [0, 2, 4]\<rparr>" echo_metrics]
  by (simp add: calculate_metrics_def bind_def lift_def echo_metrics_def
      echo_confusion_matrix_def echo_classification_report_def)

subsection \<open>C9: MSAVI\<close>

lemma msavi_negative_radicand:
  "np_less (as_float (msavi_radicand nir red)) (Fin 0) \<Longrightarrow> msavi_cell nir red = FloatCell NaN"
  by (simp add: msavi_cell_def v_sqrt_def np_sqrt_negative v_sub_def div_by_def)

text \<open>
  C9. For layers of the same shape, float or integer, MSAVI returns an array and raises
  nothing, and every cell whose square-root argument (2*nir+1)^2 - 8*(nir-red), as the
  code computes it, is negative holds NaN.
\<close>

theorem C9_msavi_negative_radicand:
  assumes "nrows nir = nrows red" and "ncols nir = ncols red"
  shows "\<exists>g. calculate_msavi nir red = Inr g
           \<and> nrows g = nrows nir \<and> ncols g = ncols nir
           \<and> length (cells g) = nrows nir * ncols nir
           \<and> (\<forall>k < nrows nir * ncols nir.
                 np_less (as_float (msavi_radicand (cells nir ! k) (cells red ! k))) (Fin 0)
                 \<longrightarrow> cells g ! k = FloatCell NaN)"
  using assms by (simp add: calculate_msavi_def np_binop_same_shape msavi_negative_radicand)

text \<open>
  Float layers with nir = 1/2 and red = -1 give the argument -8; signed 16-bit layers
  with nir = 0 and red = -1 give -7.
\<close>

theorem C9_msavi_witness:
  "calculate_msavi \<lparr>nrows = 1, ncols = 1, cells = [FloatCell (Fin (1 / 2))]\<rparr>
                   \<lparr>nrows = 1, ncols = 1, cells = [FloatCell (Fin (- 1))]\<rparr>
     = Inr \<lparr>nrows = 1, ncols = 1, cells = [FloatCell NaN]\<rparr>
   \<and> msavi_radicand (FloatCell (Fin (1 / 2))) (FloatCell (Fin (- 1))) = FloatCell (Fin (- 8))
   \<and> msavi_radicand (IntCell True 16 0) (IntCell True 16 (- 1)) = IntCell True 16 (- 7)
   \<and> calculate_msavi \<lparr>nrows = 1, ncols = 1, cells = [IntCell True 16 0]\<rparr>
                     \<lparr>nrows = 1, ncols = 1, cells = [IntCell True 16 (- 1)]\<rparr>
     = Inr \<lparr>nrows = 1, ncols = 1, cells = [FloatCell NaN]\<rparr>"
proof -
  let ?nir = "\<lparr>nrows = 1, ncols = 1, cells = [FloatCell (Fin (1 / 2))]\<rparr>"
  let ?red = "\<lparr>nrows = 1, ncols = 1, cells = [FloatCell (Fin (- 1))]\<rparr>"
  let ?inir = "\<lparr>nrows = 1, ncols = 1, cells = [IntCell True 16 0]\<rparr>"
  let ?ired = "\<lparr>nrows = 1, ncols = 1, cells = [IntCell True 16 (- 1)]\<rparr>"
  have r: "msavi_radicand (FloatCell (Fin (1 / 2))) (FloatCell (Fin (- 1))) = FloatCell (Fin (- 8))"
    by (simp add: msavi_radicand_def v_sub_def np_sub_def)
  have ri: "msavi_radicand (IntCell True 16 0) (IntCell True 16 (- 1)) = IntCell True 16 (- 7)"
    by (simp add: msavi_radicand_def v_sub_def result_type_def wrap_def)
  have one: "g = \<lparr>nrows = 1, ncols = 1, cells = [FloatCell NaN]\<rparr>"
    if "nrows g = 1" "ncols g = 1" "length (cells g) = 1" "cells g ! 0 = FloatCell NaN"
    for g :: "npvalue grid"
  proof -
    from that have "cells g = [FloatCell NaN]" by (cases "cells g") simp_all
    with that show ?thesis by (cases g) simp
  qed
  have "\<exists>g. calculate_msavi ?nir ?red = Inr g
         \<and> nrows g = 1 \<and> ncols g = 1 \<and> length (cells g) = 1 \<and> cells g ! 0 = FloatCell NaN"
    using C9_msavi_negative_radicand [of ?nir ?red] r by simp
  with one have a: "calculate_msavi ?nir ?red = Inr \<lparr>nrows = 1, ncols = 1, cells = [FloatCell NaN]\<rparr>"
    by blast
  have "\<exists>g. calculate_msavi ?inir ?ired = Inr g
         \<and> nrows g = 1 \<and> ncols g = 1 \<and> length (cells g) = 1 \<and> cells g ! 0 = FloatCell NaN"
    using C9_msavi_negative_radicand [of ?inir ?ired] ri by simp
  with one have b: "calculate_msavi ?inir ?ired = Inr \<lparr>nrows = 1, ncols = 1, cells = [FloatCell NaN]\<rparr>"
    by blast
  from a b r ri show ?thesis by simp
qed

subsection \<open>C10: predicted labels\<close>

lemma predict_rows_result:
  "predict_rows m X = Inr ps \<Longrightarrow> forest_contract m \<Longrightarrow>
   length ps = length X \<and> set ps \<subseteq> set (classes m)"
proof (induction X arbitrary: ps)
  case Nil
  then show ?case by simp
next
  case (Cons r rs)
  then show ?case
    by (auto simp: forest_contract_def split: sum.splits)
qed

lemma predict_rows_total:
  "\<forall>r \<in> set X. \<exists>c. predict_row m r = Inr c \<Longrightarrow> \<exists>ps. predict_rows m X = Inr ps"
proof (induction X)
  case Nil
  show ?case by simp
next
  case (Cons r rs)
  then obtain c ps where "predict_row m r = Inr c" and "predict_rows m rs = Inr ps"
    by auto
  then show ?case by simp
qed

lemma length_pixel_rows [simp]: "length (pixel_rows img) = height img * width img"
  by (simp add: pixel_rows_def)

lemma prepare_training_data_labels:
  assumes "split_contract (train_test_split sk)"
    and "prepare_training_data sk features labels = Inr (X_train, X_test, y_train, y_test)"
  shows "set y_train \<subseteq> set (cells labels) - {0}"
proof -
  let ?y = "cells labels"
  from assms(2) obtain X' where
    s: "lift (train_test_split sk X' (filter (\<lambda>c. c \<noteq> 0) ?y)) = Inr (X_train, X_test, y_train, y_test)"
    by (auto simp: prepare_training_data_def Let_def bind_def boolean_index_self
        split: sum.splits)
  then have "train_test_split sk X' (filter (\<lambda>c. c \<noteq> 0) ?y) = Inr (X_train, X_test, y_train, y_test)"
    by (auto simp: lift_def split: sum.splits)
  with assms(1) have "set y_train \<subseteq> set (filter (\<lambda>c. c \<noteq> 0) ?y)"
    unfolding split_contract_def by blast
  then show ?thesis by auto
qed

lemma train_model:
  assumes "fit_contract (fit sk)" and "train sk self X_train y_train = Inr trained"
  shows "\<exists>m. model trained = Some m \<and> set (classes m) = set y_train \<and> forest_contract m"
proof -
  from assms(2) obtain m where "fit sk X_train y_train = Inr m" and "trained = self\<lparr>model := Some m\<rparr>"
    by (auto simp: train_def bind_def lift_def split: sum.splits)
  with assms(1) show ?thesis
    unfolding fit_contract_def by auto
qed

lemma ordered_split_contract: "split_contract ordered_split"
  unfolding split_contract_def ordered_split_def Let_def
  by (auto split: if_splits dest: in_set_takeD in_set_dropD)

lemma constant_forest_fit_contract: "fit_contract constant_forest_fit"
proof -
  have "hd y \<in> set y" if "X \<noteq> []" and "length X = length y" for X :: "row list" and y :: "int list"
    using that by (cases y) auto
  then show ?thesis
    unfolding fit_contract_def constant_forest_fit_def forest_contract_def always_def
    by (auto split: if_splits)
qed

text \<open>
  C10. Let the training rows come from \<open>prepare_training_data\<close> and the classifier
  be trained on them, with a library that keeps to its documented contract. Then every
  grid that \<open>predict\<close> returns has the height and width of the feature image, one label
  per pixel, and each label is a nonzero label of the training rows: the background
  value 0 never occurs. \<open>predict\<close> does return a grid when the image has a pixel and
  the forest decides every row.
\<close>

theorem C10_predictions_never_background:
  assumes "split_contract (train_test_split sk)" and "fit_contract (fit sk)"
    and "prepare_training_data sk features labels = Inr (X_train, X_test, y_train, y_test)"
    and "train sk self X_train y_train = Inr trained"
  shows "(\<forall>predictions. predict trained img = Inr predictions \<longrightarrow>
            nrows predictions = height img \<and> ncols predictions = width img
          \<and> length (cells predictions) = height img * width img
          \<and> (\<forall>c \<in> set (cells predictions). c \<noteq> 0 \<and> c \<in> set y_train \<and> c \<in> set (cells labels)))
       \<and> (0 < height img * width img
            \<and> (\<forall>m. model trained = Some m \<longrightarrow>
                  (\<forall>r \<in> set (pixel_rows img). \<exists>c. predict_row m r = Inr c))
          \<longrightarrow> (\<exists>predictions. predict trained img = Inr predictions))"
proof -
  from train_model [OF assms(2,4)] obtain m where m: "model trained = Some m"
    and cl: "set (classes m) = set y_train" and fc: "forest_contract m"
    by blast
  have nz: "set y_train \<subseteq> set (cells labels) - {0}"
    using assms(1,3) by (rule prepare_training_data_labels)
  have a: "nrows predictions = height img \<and> ncols predictions = width img
          \<and> length (cells predictions) = height img * width img
          \<and> (\<forall>c \<in> set (cells predictions). c \<noteq> 0 \<and> c \<in> set y_train \<and> c \<in> set (cells labels))"
    if p: "predict trained img = Inr predictions" for predictions
  proof -
    from p m obtain ps where ps: "predict_rows m (pixel_rows img) = Inr ps"
      and g: "predictions = \<lparr>nrows = height img, ncols = width img, cells = ps\<rparr>"
      by (auto simp: predict_def Let_def bind_def lift_def forest_predict_def
          split: sum.splits if_splits)
    from predict_rows_result [OF ps fc] cl
    have "length ps = height img * width img" and "set ps \<subseteq> set y_train"
      by simp_all
    with nz g show ?thesis by auto
  qed
  have b: "\<exists>predictions. predict trained img = Inr predictions"
    if pos: "0 < height img * width img"
      and tot: "\<forall>m. model trained = Some m \<longrightarrow>
                  (\<forall>r \<in> set (pixel_rows img). \<exists>c. predict_row m r = Inr c)"
  proof -
    from tot m have "\<forall>r \<in> set (pixel_rows img). \<exists>c. predict_row m r = Inr c"
      by blast
    then obtain ps where "predict_rows m (pixel_rows img) = Inr ps"
      using predict_rows_total by blast
    moreover from pos have "pixel_rows img \<noteq> []"
      using length_pixel_rows [of img] by (cases "pixel_rows img") simp_all
    ultimately show ?thesis
      using m by (simp add: predict_def Let_def bind_def lift_def forest_predict_def)
  qed
  from a b show ?thesis by blast
qed

text \<open>
  Three pixels, the first of them background: the forest is fitted on class 2 and
  predicts 2 everywhere, also at the background pixel.
\<close>

theorem C10_predictions_witness:
  "split_contract (train_test_split example_sklearn)
   \<and> fit_contract (fit example_sklearn)
   \<and> prepare_training_data example_sklearn
        \<lparr>height = 1, width = 3, bands = [[Fin 1, Fin 2, Fin 3]]\<rparr>
        \<lparr>nrows = 1, ncols = 3, cells = [0, 2, 3]\<rparr>
       = Inr ([[Fin 2]], [[Fin 3]], [2], [3])
   \<and> train example_sklearn init [[Fin 2]] [2]
       = Inr (init\<lparr>model := Some \<lparr>classes = [2], feature_importances = [0],
                                   predict_row = always 2\<rparr>\<rparr>)
   \<and> predict (init\<lparr>model := Some \<lparr>classes = [2], feature_importances = [0],
                                    predict_row = always 2\<rparr>\<rparr>)
        \<lparr>height = 1, width = 3, bands = [[Fin 1, Fin 2, Fin 3]]\<rparr>
       = Inr \<lparr>nrows = 1, ncols = 3, cells = [2, 2, 2]\<rparr>
   \<and> 0 \<notin> set (cells \<lparr>nrows = 1, ncols = 3, cells = [2, 2, 2 :: int]\<rparr>)"
proof -
  let ?features = "\<lparr>height = 1, width = 3, bands = [[Fin 1, Fin 2, Fin 3]]\<rparr>"
  let ?labels = "\<lparr>nrows = 1, ncols = 3, cells = [0, 2, 3 :: int]\<rparr>"
  let ?m = "\<lparr>classes = [2], feature_importances = [0], predict_row = always 2\<rparr>"
  have s: "split_contract (train_test_split example_sklearn)"
    by (simp add: example_sklearn_def ordered_split_contract)
  have f: "fit_contract (fit example_sklearn)"
    by (simp add: example_sklearn_def constant_forest_fit_contract)
  have p: "prepare_training_data example_sklearn ?features ?labels
             = Inr ([[Fin 2]], [[Fin 3]], [2], [3])"
    by (simp add: prepare_training_data_def pixel_rows_def upt_3 boolean_index_def bind_def
        lift_def example_sklearn_def ordered_split_def Let_def)
  have t: "train example_sklearn init [[Fin 2]] [2] = Inr (init\<lparr>model := Some ?m\<rparr>)"
    by (simp add: train_def example_sklearn_def constant_forest_fit_def lift_def bind_def)
  have r: "predict (init\<lparr>model := Some ?m\<rparr>) ?features
             = Inr \<lparr>nrows = 1, ncols = 3, cells = [2, 2, 2]\<rparr>"
    by (simp add: predict_def pixel_rows_def upt_3 forest_predict_def always_def lift_def
        bind_def Let_def)
  have d: "0 < height ?features * width ?features
      \<and> (\<forall>m. model (init\<lparr>model := Some ?m\<rparr>) = Some m \<longrightarrow>
            (\<forall>r \<in> set (pixel_rows ?features). \<exists>c. predict_row m r = Inr c))"
    by (simp add: always_def)
  note c10 = C10_predictions_never_background [OF s f p t, of ?features]
  from c10 d have "\<exists>predictions. predict (init\<lparr>model := Some ?m\<rparr>) ?features = Inr predictions"
    by blast
  moreover from c10 r
  have "0 \<notin> set (cells \<lparr>nrows = 1, ncols = 3, cells = [2, 2, 2 :: int]\<rparr>)"
    by blast
  ultimately show ?thesis
    using s f p t r by blast
qed

end
